theory Spec2Isabelle
  imports Main "HOL-Library.Sublist"
begin

section \<open>Python strings\<close>

text \<open>
  A Python \<open>str\<close> is modelled as a \<open>string\<close>; one \<open>char\<close> stands for one code point
  below 256. \<open>isspace\<close> lists the code points below 256 that \<open>str.strip()\<close> removes:
  tab, line feed, vertical tab, form feed, carriage return, the separators 0x1C to 0x1F,
  space, next line (0x85) and no-break space (0xA0).
\<close>

definition isspace :: "char \<Rightarrow> bool" where
  "isspace c = (c \<in> set [CHR 0x09, CHR 0x0A, CHR 0x0B, CHR 0x0C, CHR 0x0D,
                          CHR 0x1C, CHR 0x1D, CHR 0x1E, CHR 0x1F, CHR 0x20,
                          CHR 0x85, CHR 0xA0])"

definition lstrip :: "string \<Rightarrow> string" where
  "lstrip s = dropWhile isspace s"

definition rstrip :: "string \<Rightarrow> string" where
  "rstrip s = rev (dropWhile isspace (rev s))"

text \<open>\<open>text.strip()\<close>\<close>

definition strip :: "string \<Rightarrow> string" where
  "strip s = rstrip (lstrip s)"

text \<open>
  \<open>text.replace(symbol, "")\<close>: the occurrences of \<open>symbol\<close> are found from left to
  right without overlap and deleted, in one pass; the empty symbol matches between the
  characters, and deleting it changes nothing.
\<close>

function replace_empty :: "string \<Rightarrow> string \<Rightarrow> string" where
  "replace_empty [] symbol = []"
| "replace_empty (c # cs) symbol =
     (if symbol \<noteq> [] \<and> prefix symbol (c # cs)
      then replace_empty (drop (length symbol) (c # cs)) symbol
      else c # replace_empty cs symbol)"
  by pat_completeness auto
termination
  by (relation "measure (\<lambda>(t, s). length t)") auto

section \<open>The node tree of BeautifulSoup\<close>

text \<open>
  The parser is a library outside the repository. A parsed document is the tree it
  builds: a \<open>Tag\<close> has a name, attributes and contents, a \<open>NavigableString\<close> is a piece of
  text. An attribute value is the string a selector compares with (for \<open>class\<close>, the
  class names joined by single spaces).
\<close>

datatype node =
    Tag (tag_name: string) (attrs: "(string \<times> string) list") (contents: "node list")
  | NavigableString string

text \<open>\<open>element.text\<close>: all the strings below the node, concatenated in document order.\<close>

fun get_text :: "node \<Rightarrow> string" where
  "get_text (NavigableString s) = s"
| "get_text (Tag n a cs) = concat (map get_text cs)"

text \<open>
  The truth value of a node, as \<open>not element\<close> reads it: a \<open>Tag\<close> is always true
  (its \<open>__bool__\<close> returns \<open>True\<close> whatever its contents), a \<open>NavigableString\<close> is a
  \<open>str\<close> and is false exactly when empty.
\<close>

fun truthy :: "node \<Rightarrow> bool" where
  "truthy (Tag n a cs) = True"
| "truthy (NavigableString s) = (s \<noteq> [])"

section \<open>sanitize_element_text\<close>

text \<open>
  Lines 83 to 86 of \<open>sanitize_element_text\<close>, on the text of the element: strip, then
  one \<open>replace\<close> per symbol, in the order of the list.
\<close>

definition sanitize_text :: "string \<Rightarrow> string list \<Rightarrow> string" where
  "sanitize_text raw additional_symbols =
     fold (\<lambda>symbol t. replace_empty t symbol) additional_symbols (strip raw)"

text \<open>The whole function: \<open>None\<close> for a false element, the cleaned text otherwise.\<close>

definition sanitize_element_text :: "node option \<Rightarrow> string list \<Rightarrow> string option" where
  "sanitize_element_text element additional_symbols =
     (case element of
        None \<Rightarrow> None
      | Some el \<Rightarrow>
          if \<not> truthy el then None
          else Some (sanitize_text (get_text el) additional_symbols))"

section \<open>Navigating the tree\<close>

text \<open>
  An element is a node together with its ancestors, nearest first, each with the index
  the path takes among its contents: this is what \<open>.parent\<close>, the sibling tests of the
  selectors and the ancestor tests need. The document itself has no ancestors.
\<close>

type_synonym element = "(node \<times> nat) list \<times> node"

text \<open>\<open>element.parent\<close>, \<open>None\<close> at the document.\<close>

fun parent :: "element \<Rightarrow> element option" where
  "parent ([], n) = None"
| "parent ((p, i) # ctx, n) = Some (ctx, p)"

fun ancestors :: "element \<Rightarrow> element list" where
  "ancestors ([], n) = []"
| "ancestors ((p, i) # ctx, n) = (ctx, p) # ancestors (ctx, p)"

text \<open>The nodes strictly below an element, in document order (a node before its contents).\<close>

fun descs :: "(node \<times> nat) list \<Rightarrow> node \<Rightarrow> element list"
  and descs_from :: "(node \<times> nat) list \<Rightarrow> node \<Rightarrow> nat \<Rightarrow> node list \<Rightarrow> element list" where
  "descs ctx (NavigableString s) = []"
| "descs ctx (Tag n a cs) = descs_from ctx (Tag n a cs) 0 cs"
| "descs_from ctx p i [] = []"
| "descs_from ctx p i (c # cs) =
     (((p, i) # ctx, c) # descs ((p, i) # ctx) c) @ descs_from ctx p (Suc i) cs"

definition descendants :: "element \<Rightarrow> element list" where
  "descendants el = descs (fst el) (snd el)"

fun is_tag :: "node \<Rightarrow> bool" where
  "is_tag (Tag n a cs) = True"
| "is_tag (NavigableString s) = False"

text \<open>
  \<open>tag.string\<close>: the single string below a tag, through single-child tags; \<open>None\<close> when a
  tag on the way has no contents or more than one.
\<close>

fun node_string :: "node \<Rightarrow> string option" where
  "node_string (NavigableString s) = Some s"
| "node_string (Tag n a [c]) = node_string c"
| "node_string (Tag n a cs) = None"

text \<open>
  \<open>element.find_all(name)\<close> and \<open>element.find_all(name, string=s)\<close>: the tags below the
  element with that name and, when a string is given, with \<open>.string\<close> equal to it.
\<close>

definition find_all :: "element \<Rightarrow> string \<Rightarrow> string option \<Rightarrow> element list" where
  "find_all el nm str =
     filter (\<lambda>d. is_tag (snd d) \<and> tag_name (snd d) = nm \<and>
                 (case str of None \<Rightarrow> True | Some s \<Rightarrow> node_string (snd d) = Some s))
            (descendants el)"

text \<open>\<open>tag.get(key)\<close>\<close>

definition get_attr :: "element \<Rightarrow> string \<Rightarrow> string option" where
  "get_attr el key = map_of (attrs (snd el)) key"

subsection \<open>CSS selectors\<close>

text \<open>
  The part of the selector language the crawler uses. A compound selector is a list of
  simple selectors that must all hold; a complex selector joins compound selectors with
  the descendant combinator (a blank), the child combinator \<open>>\<close> and the
  next-sibling combinator \<open>+\<close>.
\<close>

datatype simple_selector =
    Type string
  | Id string
  | Class string
  | AttrEquals string string
  | AttrContains string string
  | NotClass string
  | FirstChild
  | LastChild

datatype combinator = Descendant | Child | NextSibling

datatype selector =
    Compound "simple_selector list"
  | Combine selector combinator "simple_selector list"

fun tokens :: "string \<Rightarrow> string \<Rightarrow> string list" where
  "tokens w [] = (if w = [] then [] else [w])"
| "tokens w (c # cs) =
     (if c = CHR 0x20 then (if w = [] then [] else [w]) @ tokens [] cs
      else tokens (w @ [c]) cs)"

definition class_names :: "node \<Rightarrow> string list" where
  "class_names n = (case map_of (attrs n) ''class'' of None \<Rightarrow> [] | Some v \<Rightarrow> tokens [] v)"

fun contains :: "string \<Rightarrow> string \<Rightarrow> bool" where
  "contains [] sub = (sub = [])"
| "contains (c # cs) sub = (prefix sub (c # cs) \<or> contains cs sub)"

text \<open>The tags among the siblings before and after an element.\<close>

fun tags_before :: "element \<Rightarrow> node list" where
  "tags_before ([], n) = []"
| "tags_before ((p, i) # ctx, n) = filter is_tag (take i (contents p))"

fun tags_after :: "element \<Rightarrow> node list" where
  "tags_after ([], n) = []"
| "tags_after ((p, i) # ctx, n) = filter is_tag (drop (Suc i) (contents p))"

fun previous_tag :: "element \<Rightarrow> element option" where
  "previous_tag ([], n) = None"
| "previous_tag ((p, i) # ctx, n) =
     (case filter (\<lambda>j. is_tag (contents p ! j)) (rev [0..<min i (length (contents p))]) of
        [] \<Rightarrow> None
      | j # js \<Rightarrow> Some ((p, j) # ctx, contents p ! j))"

fun matches_simple :: "simple_selector \<Rightarrow> element \<Rightarrow> bool" where
  "matches_simple (Type t) el = (tag_name (snd el) = t)"
| "matches_simple (Id i) el = (get_attr el ''id'' = Some i)"
| "matches_simple (Class c) el = (c \<in> set (class_names (snd el)))"
| "matches_simple (AttrEquals k v) el = (get_attr el k = Some v)"
| "matches_simple (AttrContains k v) el =
     (case get_attr el k of None \<Rightarrow> False | Some x \<Rightarrow> v \<noteq> [] \<and> contains x v)"
| "matches_simple (NotClass c) el = (c \<notin> set (class_names (snd el)))"
| "matches_simple FirstChild el = (fst el \<noteq> [] \<and> tags_before el = [])"
| "matches_simple LastChild el = (fst el \<noteq> [] \<and> tags_after el = [])"

definition matches_compound :: "simple_selector list \<Rightarrow> element \<Rightarrow> bool" where
  "matches_compound c el = (is_tag (snd el) \<and> list_all (\<lambda>s. matches_simple s el) c)"

primrec matches :: "selector \<Rightarrow> element \<Rightarrow> bool" where
  "matches (Compound c) el = matches_compound c el"
| "matches (Combine left comb c) el =
     (matches_compound c el \<and>
      (case comb of
         Descendant \<Rightarrow> list_ex (matches left) (ancestors el)
       | Child \<Rightarrow> (case parent el of None \<Rightarrow> False | Some p \<Rightarrow> matches left p)
       | NextSibling \<Rightarrow> (case previous_tag el of None \<Rightarrow> False | Some s \<Rightarrow> matches left s)))"

text \<open>\<open>element.select(sel)\<close> and \<open>element.select_one(sel)\<close>\<close>

definition select :: "selector \<Rightarrow> element \<Rightarrow> element list" where
  "select sel el = filter (matches sel) (descendants el)"

definition select_one :: "selector \<Rightarrow> element \<Rightarrow> element option" where
  "select_one sel el = (case select sel el of [] \<Rightarrow> None | x # xs \<Rightarrow> Some x)"

section \<open>The crawler\<close>

subsection \<open>Data\<close>

text \<open>
  The dictionaries the crawler builds. \<open>website\<close> is \<open>None\<close> while the dictionary has no
  such key, and \<open>Some v\<close> once \<open>object_data['website']\<close> has been assigned \<open>v\<close>.
\<close>

record review_data =
  reviewer_name :: "string option"
  reviewer_location :: "string option"
  review_date :: "string option"

record object_data =
  name :: "string option"
  rating :: "string option"
  reviews_count :: "string option"
  yelp_url :: "string option"
  reviews :: "review_data list"
  website :: "string option option"

text \<open>The attributes of a \<open>YelpCrawler\<close>.\<close>

record crawler =
  category :: string
  location :: string
  data :: "object_data list"
  search :: string
  number_of_reviews :: int
  max_pages :: "int option"

text \<open>\<open>YelpCrawler(category, location)\<close>\<close>

definition init :: "string \<Rightarrow> string \<Rightarrow> crawler" where
  "init cat loc =
     \<lparr>category = cat, location = loc, data = [], search = [],
      number_of_reviews = 5, max_pages = Some 5\<rparr>"

subsection \<open>The outside world\<close>

text \<open>
  What the code can raise: \<open>requests.get\<close> raises on a network failure, a subscript out
  of range raises \<open>IndexError\<close>, an attribute read on \<open>None\<close> raises \<open>AttributeError\<close>.
  Nothing in the repository catches an exception. Writing \<open>fix.html\<close> is taken to succeed.
\<close>

datatype exn = RequestException | IndexError | AttributeError

text \<open>
  A request is a URL with its query parameters (\<open>None\<close> when \<open>requests.get\<close> is called
  without \<open>params\<close>). A response has its status and its content; the content is given as
  the tree that \<open>BeautifulSoup(response.content, 'html.parser')\<close> builds from it.
\<close>

record request =
  url :: string
  params :: "(string \<times> int) list option"

record response =
  status_code :: int
  content :: node

text \<open>
  The network answers a request, knowing the requests made before it, with an exception
  or a response. The world records every request made and the last markup written to
  \<open>fix.html\<close>.
\<close>

type_synonym web = "request list \<Rightarrow> request \<Rightarrow> exn + response"

record world =
  http_log :: "request list"
  fix_html :: "node option"

definition requests_get :: "web \<Rightarrow> request \<Rightarrow> world \<Rightarrow> (exn + response) \<times> world" where
  "requests_get net req w = (net (http_log w) req, w\<lparr>http_log := http_log w @ [req]\<rparr>)"

text \<open>\<open>xs[i]\<close> for an index that is not negative.\<close>

definition subscript :: "'a list \<Rightarrow> nat \<Rightarrow> exn + 'a" where
  "subscript xs i = (if i < length xs then Inr (xs ! i) else Inl IndexError)"

subsection \<open>The selectors of the source\<close>

text \<open>\<open>div[data-testid="serp-ia-card"]:not(.ABP)\<close>\<close>

definition sel_business_cards :: selector where
  "sel_business_cards =
     Compound [Type ''div'', AttrEquals ''data-testid'' ''serp-ia-card'', NotClass ''ABP'']"

text \<open>\<open>[class*="businessName"] a\<close>\<close>

definition sel_name :: selector where
  "sel_name = Combine (Compound [AttrContains ''class'' ''businessName'']) Descendant [Type ''a'']"

text \<open>\<open>div.css-volmcs + div.css-1jq1ouh > span:first-child\<close>\<close>

definition sel_rating :: selector where
  "sel_rating =
     Combine (Combine (Compound [Type ''div'', Class ''css-volmcs''])
                NextSibling [Type ''div'', Class ''css-1jq1ouh''])
       Child [Type ''span'', FirstChild]"

text \<open>\<open>div.css-volmcs + div.css-1jq1ouh > span:last-child\<close>\<close>

definition sel_review_count :: selector where
  "sel_review_count =
     Combine (Combine (Compound [Type ''div'', Class ''css-volmcs''])
                NextSibling [Type ''div'', Class ''css-1jq1ouh''])
       Child [Type ''span'', LastChild]"

text \<open>\<open>div#reviews ul[class="list__09f24__ynIEd"]\<close>\<close>

definition sel_reviews_list_block :: selector where
  "sel_reviews_list_block =
     Combine (Compound [Type ''div'', Id ''reviews''])
       Descendant [Type ''ul'', AttrEquals ''class'' ''list__09f24__ynIEd'']"

text \<open>\<open>div.user-passport-info > span > a\<close>\<close>

definition sel_reviewer_name :: selector where
  "sel_reviewer_name =
     Combine (Combine (Compound [Type ''div'', Class ''user-passport-info''])
                Child [Type ''span''])
       Child [Type ''a'']"

text \<open>\<open>div.user-passport-info > div > div > span\<close>\<close>

definition sel_reviewer_location :: selector where
  "sel_reviewer_location =
     Combine (Combine (Combine (Compound [Type ''div'', Class ''user-passport-info''])
                         Child [Type ''div''])
                Child [Type ''div''])
       Child [Type ''span'']"

text \<open>\<open>li > div > div\<close>\<close>

definition sel_li_div_div :: selector where
  "sel_li_div_div =
     Combine (Combine (Compound [Type ''li'']) Child [Type ''div'']) Child [Type ''div'']"

text \<open>\<open>div > div[class*="arrange-unit-fill"] > span\<close>\<close>

definition sel_date :: selector where
  "sel_date =
     Combine (Combine (Compound [Type ''div''])
                Child [Type ''div'', AttrContains ''class'' ''arrange-unit-fill''])
       Child [Type ''span'']"

subsection \<open>get_object_reviews\<close>

text \<open>
  The body of the loop over the reviews (lines 142 to 154) for one list item. The date
  is read from the second \<open>li > div > div\<close> of the whole page, which raises when the page
  has fewer than two.
\<close>

definition review_of :: "element \<Rightarrow> element \<Rightarrow> exn + review_data" where
  "review_of soup review =
     (let name_element = select_one sel_reviewer_name review;
          location_element = select_one sel_reviewer_location review
      in case subscript (select sel_li_div_div soup) 1 of
           Inl e \<Rightarrow> Inl e
         | Inr date_block \<Rightarrow>
             (let date_element = select_one sel_date date_block
              in Inr \<lparr>reviewer_name = sanitize_element_text (map_option snd name_element) [],
                      reviewer_location =
                        sanitize_element_text (map_option snd location_element) [],
                      review_date =
                        sanitize_element_text (map_option snd date_element) []\<rparr>))"

text \<open>The loop of lines 138 to 155, with \<open>reviews_items\<close> as the accumulator.\<close>

fun reviews_loop ::
  "crawler \<Rightarrow> element \<Rightarrow> element list \<Rightarrow> review_data list \<Rightarrow> exn + review_data list" where
  "reviews_loop self soup [] reviews_items = Inr reviews_items"
| "reviews_loop self soup (review # rest) reviews_items =
     (if int (length reviews_items) \<ge> number_of_reviews self then Inr reviews_items
      else case review_of soup review of
             Inl e \<Rightarrow> Inl e
           | Inr review_data \<Rightarrow> reviews_loop self soup rest (reviews_items @ [review_data]))"

text \<open>Lines 126 to 130: the website, read from the second \<open>p\<close> below the label's parent.\<close>

definition website_of :: "element \<Rightarrow> exn + string option" where
  "website_of soup =
     (case find_all soup ''p'' (Some ''Business website'') of
        [] \<Rightarrow> Inr None
      | label # others \<Rightarrow>
          (case parent label of
             None \<Rightarrow> Inl AttributeError
           | Some container \<Rightarrow>
               (case subscript (find_all container ''p'' None) 1 of
                  Inl e \<Rightarrow> Inl e
                | Inr website_element \<Rightarrow>
                    Inr (sanitize_element_text (Some (snd website_element)) []))))"

text \<open>Lines 126 to 157, on the parsed page.\<close>

definition extract_reviews ::
  "crawler \<Rightarrow> element \<Rightarrow> exn + (review_data list \<times> string option)" where
  "extract_reviews self soup =
     (case website_of soup of
        Inl e \<Rightarrow> Inl e
      | Inr site \<Rightarrow>
          (case select_one sel_reviews_list_block soup of
             None \<Rightarrow> Inr ([], site)
           | Some reviews_list_block \<Rightarrow>
               (case reviews_loop self soup (find_all reviews_list_block ''li'' None) [] of
                  Inl e \<Rightarrow> Inl e
                | Inr reviews_items \<Rightarrow> Inr (reviews_items, site))))"

definition get_object_reviews ::
  "web \<Rightarrow> crawler \<Rightarrow> string \<Rightarrow> world \<Rightarrow> (exn + (review_data list \<times> string option)) \<times> world" where
  "get_object_reviews net self object_url w =
     (case requests_get net \<lparr>url = object_url, params = None\<rparr> w of
        (Inl e, w1) \<Rightarrow> (Inl e, w1)
      | (Inr resp, w1) \<Rightarrow> (extract_reviews self ([], content resp), w1))"

subsection \<open>get_object_data\<close>

text \<open>\<open>str(x)\<close> inside the f-string, for the value \<open>get('href')\<close> returns.\<close>

definition str_of :: "string option \<Rightarrow> string" where
  "str_of v = (case v of None \<Rightarrow> ''None'' | Some s \<Rightarrow> s)"

definition get_object_data ::
  "web \<Rightarrow> crawler \<Rightarrow> element \<Rightarrow> world \<Rightarrow> (exn + object_data) \<times> world" where
  "get_object_data net self the_card w =
     (let name_element = select_one sel_name the_card;
          rating_element = select_one sel_rating the_card;
          review_count_element = select_one sel_review_count the_card;
          object_data =
            \<lparr>name = sanitize_element_text (map_option snd name_element) [],
             rating = sanitize_element_text (map_option snd rating_element) [],
             reviews_count =
               sanitize_element_text (map_option snd review_count_element) [''('', '')''],
             yelp_url =
               (case name_element of
                  Some el \<Rightarrow> Some (''https://www.yelp.com'' @ str_of (get_attr el ''href''))
                | None \<Rightarrow> None),
             reviews = [],
             website = None\<rparr>
      in case (case yelp_url object_data of
                 None \<Rightarrow> (Inr object_data, w)
               | Some u \<Rightarrow>
                   if u = [] then (Inr object_data, w)
                   else (case get_object_reviews net self u w of
                           (Inl e, w1) \<Rightarrow> (Inl e, w1)
                         | (Inr (rs, site), w1) \<Rightarrow>
                             (Inr (object_data\<lparr>reviews := rs, website := Some site\<rparr>), w1))) of
           (Inl e, w1) \<Rightarrow> (Inl e, w1)
         | (Inr od, w1) \<Rightarrow>
             (Inr od, if name_element = None then w1\<lparr>fix_html := Some (snd the_card)\<rparr> else w1))"

subsection \<open>get_objects_list\<close>

text \<open>\<open>for card in business_cards: objects.append(self.get_object_data(card))\<close>\<close>

fun cards_loop ::
  "web \<Rightarrow> crawler \<Rightarrow> element list \<Rightarrow> object_data list \<Rightarrow> world
   \<Rightarrow> (exn + object_data list) \<times> world" where
  "cards_loop net self [] objects w = (Inr objects, w)"
| "cards_loop net self (the_card # cards) objects w =
     (case get_object_data net self the_card w of
        (Inl e, w1) \<Rightarrow> (Inl e, w1)
      | (Inr od, w1) \<Rightarrow> cards_loop net self cards (objects @ [od]) w1)"

definition error_text :: string where
  "error_text = ''We're sorry, the page of results you requested is unavailable.''"

text \<open>The request of the listing page at an offset.\<close>

definition listing_request :: "crawler \<Rightarrow> int \<Rightarrow> request" where
  "listing_request self offset = \<lparr>url = search self, params = Some [(''start'', offset)]\<rparr>"

text \<open>
  The \<open>while True\<close> loop of lines 59 to 73, entered with the values of \<open>page\<close> and
  \<open>objects\<close>. The loop may run forever (no page limit and no page with the error
  message): the result is \<open>None\<close> then.
\<close>

partial_function (option) pages_loop ::
  "web \<Rightarrow> crawler \<Rightarrow> int \<Rightarrow> object_data list \<Rightarrow> world
   \<Rightarrow> ((exn + object_data list) \<times> world) option" where
  "pages_loop net self page objects w =
     (let offset = page * 10;
          page' = page + 1
      in if (case max_pages self of None \<Rightarrow> False | Some m \<Rightarrow> page' > m)
         then Some (Inr objects, w)
         else (case requests_get net (listing_request self offset) w of
                 (Inl e, w1) \<Rightarrow> Some (Inl e, w1)
               | (Inr resp, w1) \<Rightarrow>
                   (let soup = ([], content resp);
                        error_tag = find_all soup ''h3'' (Some error_text)
                    in if error_tag \<noteq> [] then Some (Inr objects, w1)
                       else (case cards_loop net self (select sel_business_cards soup)
                                     objects w1 of
                               (Inl e, w2) \<Rightarrow> Some (Inl e, w2)
                             | (Inr objects', w2) \<Rightarrow>
                                 pages_loop net self page' objects' w2))))"

declare pages_loop.simps [code]

definition get_objects_list ::
  "web \<Rightarrow> crawler \<Rightarrow> world \<Rightarrow> ((exn + object_data list) \<times> world) option" where
  "get_objects_list net self w = pages_loop net self 0 [] w"

text \<open>
  The number of listing pages requested so far: the listing requests are the ones made
  with \<open>params\<close>, the detail requests are made without.
\<close>

definition listing_fetches :: "world \<Rightarrow> nat" where
  "listing_fetches w = length (filter (\<lambda>req. params req \<noteq> None) (http_log w))"

subsection \<open>run\<close>

text \<open>
  \<open>urlencode\<close> of a dictionary of strings: keys and values through \<open>quote_plus\<close> (letters,
  digits and \<open>_.-~\<close> stay, a space becomes \<open>+\<close>, every other character becomes the
  bytes of its UTF-8 encoding, each as \<open>%XX\<close>), joined by \<open>=\<close> and \<open>&\<close>.
\<close>

definition always_safe :: "char \<Rightarrow> bool" where
  "always_safe c =
     (c \<in> set ''ABCDEFGHIJKLMNOPQRSTUVWXYZabcdefghijklmnopqrstuvwxyz0123456789_.-~'')"

definition hex_digit :: "nat \<Rightarrow> char" where
  "hex_digit n = ''0123456789ABCDEF'' ! (n mod 16)"

definition utf8 :: "char \<Rightarrow> nat list" where
  "utf8 c = (let n = of_char c in if n < 128 then [n] else [192 + n div 64, 128 + n mod 64])"

definition quote_plus :: "string \<Rightarrow> string" where
  "quote_plus s =
     concat (map (\<lambda>c. if always_safe c then [c]
                       else if c = CHR 0x20 then ''+''
                       else concat (map (\<lambda>b. [CHR ''%'', hex_digit (b div 16), hex_digit b])
                                        (utf8 c))) s)"

fun join :: "string \<Rightarrow> string list \<Rightarrow> string" where
  "join sep [] = []"
| "join sep [x] = x"
| "join sep (x # y # ys) = x @ sep @ join sep (y # ys)"

definition urlencode :: "(string \<times> string) list \<Rightarrow> string" where
  "urlencode query = join ''&'' (map (\<lambda>(k, v). quote_plus k @ ''='' @ quote_plus v) query)"

text \<open>
  \<open>run\<close> returns the objects and leaves them in \<open>self.data\<close>; an exception leaves
  \<open>self.data\<close> as it was.
\<close>

definition run ::
  "web \<Rightarrow> crawler \<Rightarrow> world \<Rightarrow> ((exn + object_data list) \<times> crawler \<times> world) option" where
  "run net self w =
     (let search_params = [(''find_desc'', category self), (''find_loc'', location self)];
          self1 = self\<lparr>search := ''https://www.yelp.com/search?'' @ urlencode search_params\<rparr>
      in case get_objects_list net self1 w of
           None \<Rightarrow> None
         | Some (Inl e, w1) \<Rightarrow> Some (Inl e, self1, w1)
         | Some (Inr objects, w1) \<Rightarrow> Some (Inr objects, self1\<lparr>data := objects\<rparr>, w1))"

section \<open>Sample pages and networks\<close>

text \<open>The inputs on which the properties below are evaluated.\<close>

definition document :: "node list \<Rightarrow> node" where
  "document cs = Tag ''[document]'' [] cs"

text \<open>
  A listing card with a name link to \<open>/biz/cafe\<close>, and a card without one.
\<close>

definition name_link :: node where
  "name_link = Tag ''a'' [(''href'', ''/biz/cafe'')] [NavigableString ''Cafe'']"

definition name_box :: node where
  "name_box = Tag ''div'' [(''class'', ''businessName__09f24'')] [name_link]"

definition card_named :: node where
  "card_named = Tag ''div'' [(''data-testid'', ''serp-ia-card'')] [name_box]"

definition card_nameless :: node where
  "card_nameless =
     Tag ''div'' [(''data-testid'', ''serp-ia-card'')]
       [Tag ''span'' [] [NavigableString ''4.5'']]"

text \<open>The page that carries the error message in a heading, and a near miss of it.\<close>

definition terminal_page :: node where
  "terminal_page = document [Tag ''h3'' [] [NavigableString error_text]]"

definition near_miss_page :: node where
  "near_miss_page = document [Tag ''h3'' [] [NavigableString (error_text @ '' '')]]"

text \<open>
  Detail pages: one whose website label is the only \<open>p\<close> of its container, one whose
  reviews list has a single empty item, and one with four reviews.
\<close>

definition label_only_page :: node where
  "label_only_page =
     document [Tag ''div'' [] [Tag ''p'' [] [NavigableString ''Business website'']]]"

definition reviews_block :: "node list \<Rightarrow> node" where
  "reviews_block items =
     Tag ''div'' [(''id'', ''reviews'')] [Tag ''ul'' [(''class'', ''list__09f24__ynIEd'')] items]"

definition one_item_page :: node where
  "one_item_page = document [reviews_block [Tag ''li'' [] []]]"

definition review_item :: "string \<Rightarrow> node" where
  "review_item reviewer =
     Tag ''li'' []
       [Tag ''div'' []
          [Tag ''div'' [(''class'', ''user-passport-info'')]
             [Tag ''span'' [] [Tag ''a'' [] [NavigableString reviewer]]]]]"

definition four_reviews_page :: node where
  "four_reviews_page =
     document [reviews_block (map review_item [''r1'', ''r2'', ''r3'', ''r4''])]"

text \<open>
  A network that answers every listing request with one page and every detail request
  with one page or one exception, all with the given status.
\<close>

definition serve :: "int \<Rightarrow> node \<Rightarrow> exn + node \<Rightarrow> web" where
  "serve status listing detail log req =
     (if params req = None
      then (case detail of
              Inl e \<Rightarrow> Inl e
            | Inr page \<Rightarrow> Inr \<lparr>status_code = status, content = page\<rparr>)
      else Inr \<lparr>status_code = status, content = listing\<rparr>)"

text \<open>
  A listing page with two cards, and a network that serves one listing page, answers
  the first detail request with an empty page and raises on every later one.
\<close>

definition two_cards_page :: node where
  "two_cards_page = document [card_named, card_named]"

definition serve_first :: "node \<Rightarrow> web" where
  "serve_first listing log req =
     (if params req = None
      then (if list_ex (\<lambda>r. params r = None) log then Inl RequestException
            else Inr \<lparr>status_code = 200, content = document []\<rparr>)
      else Inr \<lparr>status_code = 200, content = listing\<rparr>)"

text \<open>A crawler for bakeries in Austin, two pages and three reviews at most.\<close>

definition bakery :: crawler where
  "bakery =
     \<lparr>category = ''Bakery'', location = ''Austin'', data = [],
      search = ''https://www.yelp.com/search?find_desc=Bakery&find_loc=Austin'',
      number_of_reviews = 3, max_pages = Some 2\<rparr>"

definition world0 :: world where
  "world0 = \<lparr>http_log = [], fix_html = None\<rparr>"

section \<open>Properties of sanitize_element_text\<close>

subsection \<open>Stripping and replacing\<close>

lemma replace_empty_single:
  "length sy = 1 \<Longrightarrow> replace_empty t sy = filter (\<lambda>c. [c] \<noteq> sy) t"
  by (induction t sy rule: replace_empty.induct) (auto simp: length_Suc_conv)

lemma replace_empty_Nil: "replace_empty t [] = t"
  by (induction t) auto

lemma replace_empty_short:
  "length sy \<le> 1 \<Longrightarrow> replace_empty t sy = filter (\<lambda>c. [c] \<noteq> sy) t"
proof (cases "sy = []")
  case True
  then show ?thesis by (simp add: replace_empty_Nil)
next
  case False
  assume "length sy \<le> 1"
  with False have "length sy = 1" by (cases sy) auto
  then show ?thesis by (rule replace_empty_single)
qed

lemma fold_replace_empty_short:
  "\<forall>sy\<in>set s. length sy \<le> 1 \<Longrightarrow>
   fold (\<lambda>symbol t. replace_empty t symbol) s t = filter (\<lambda>c. [c] \<notin> set s) t"
proof (induction s arbitrary: t)
  case Nil
  then show ?case by simp
next
  case (Cons a s)
  then show ?case by (auto simp: replace_empty_short intro: filter_cong)
qed

lemma set_strip: "set (strip y) \<subseteq> set y"
  unfolding strip_def rstrip_def lstrip_def
  by (metis set_dropWhileD set_rev subsetI)

lemma dropWhile_snoc_keep: "\<not> P c \<Longrightarrow> \<exists>zs. dropWhile P (xs @ [c]) = zs @ [c]"
  by (induction xs) auto

lemma lstrip_rstrip_lstrip: "lstrip (rstrip (lstrip x)) = rstrip (lstrip x)"
proof (cases "lstrip x")
  case Nil
  then have "rstrip (lstrip x) = []" by (simp add: rstrip_def)
  then show ?thesis by (simp add: lstrip_def)
next
  case (Cons c ys)
  then have nsp: "\<not> isspace c"
    unfolding lstrip_def by (metis hd_dropWhile list.sel(1) list.distinct(1))
  obtain zs where "dropWhile isspace (rev ys @ [c]) = zs @ [c]"
    using dropWhile_snoc_keep [of isspace c "rev ys"] nsp by blast
  then have "rstrip (c # ys) = c # rev zs" by (simp add: rstrip_def)
  with Cons nsp show ?thesis by (simp add: lstrip_def)
qed

lemma strip_strip: "strip (strip x) = strip x"
proof -
  have "strip (strip x) = rstrip (rstrip (lstrip x))"
    by (simp add: strip_def lstrip_rstrip_lstrip)
  also have "\<dots> = rstrip (lstrip x)" by (simp add: rstrip_def)
  finally show ?thesis by (simp add: strip_def)
qed

lemma strip_spaces: "\<forall>c\<in>set t. isspace c \<Longrightarrow> strip t = []"
proof -
  assume "\<forall>c\<in>set t. isspace c"
  then have h: "dropWhile isspace t = []" by simp
  show ?thesis unfolding strip_def lstrip_def rstrip_def h by simp
qed

lemma fold_replace_empty_Nil: "fold (\<lambda>symbol t. replace_empty t symbol) s [] = []"
  by (induction s) auto

text \<open>
  C4, as the code has it. For symbols of at most one character (the code passes no
  symbols, or the two parentheses), sanitizing a text twice is sanitizing it once and
  stripping the result again. So \<open>sanitize\<close> is idempotent wherever the first result has
  no white space at its ends, and for the empty list of symbols.
\<close>

theorem sanitize_text_twice:
  "(\<forall>symbol\<in>set s. length symbol \<le> 1) \<longrightarrow>
     sanitize_text (sanitize_text x s) s = strip (sanitize_text x s) \<and>
     (strip (sanitize_text x s) = sanitize_text x s \<longrightarrow>
        sanitize_text (sanitize_text x s) s = sanitize_text x s) \<and>
     sanitize_text (sanitize_text x []) [] = sanitize_text x []"
proof (intro impI)
  assume short: "\<forall>symbol\<in>set s. length symbol \<le> 1"
  let ?y = "sanitize_text x s"
  have y: "?y = filter (\<lambda>c. [c] \<notin> set s) (strip x)"
    by (simp add: sanitize_text_def fold_replace_empty_short [OF short])
  have "\<forall>c\<in>set (strip ?y). [c] \<notin> set s"
    using set_strip [of ?y] y by auto
  then have "filter (\<lambda>c. [c] \<notin> set s) (strip ?y) = strip ?y"
    by (simp add: filter_id_conv)
  then have twice: "sanitize_text ?y s = strip ?y"
    by (simp add: sanitize_text_def fold_replace_empty_short [OF short])
  have "sanitize_text (sanitize_text x []) [] = sanitize_text x []"
    by (simp add: sanitize_text_def strip_strip)
  with twice show "sanitize_text ?y s = strip ?y \<and>
     (strip ?y = ?y \<longrightarrow> sanitize_text ?y s = ?y) \<and>
     sanitize_text (sanitize_text x []) [] = sanitize_text x []"
    by simp
qed

text \<open>
  The property at \<open>" (42) "\<close> with the parentheses as symbols: both one and two passes
  give \<open>"42"\<close>.
\<close>

theorem sanitize_text_twice_witness:
  "list_all (\<lambda>symbol. length symbol \<le> 1) [''('', '')''] \<and>
   sanitize_text '' (42) '' [''('', '')''] = ''42'' \<and>
   sanitize_text (sanitize_text '' (42) '' [''('', '')'']) [''('', '')''] = ''42''"
proof -
  have v: "sanitize_text '' (42) '' [''('', '')''] = ''42''"
    by (simp add: sanitize_text_def strip_def lstrip_def rstrip_def isspace_def)
  have s: "strip ''42'' = ''42''"
    by (simp add: strip_def lstrip_def rstrip_def isspace_def)
  show ?thesis
    using sanitize_text_twice [of "[''('', '')'']" "'' (42) ''"] v s by simp
qed

text \<open>
  C4 as stated fails: deleting a symbol can leave white space at an end of the text,
  which a second pass strips. \<open>"( 42)"\<close> becomes \<open>" 42"\<close>, and that becomes \<open>"42"\<close>,
  also as the texts of elements.
\<close>

theorem sanitize_text_not_idempotent:
  "sanitize_text (sanitize_text ''( 42)'' [''('', '')'']) [''('', '')''] \<noteq>
     sanitize_text ''( 42)'' [''('', '')''] \<and>
   sanitize_element_text (Some (Tag ''span'' [] [NavigableString ''( 42)'']))
     [''('', '')''] = Some '' 42'' \<and>
   sanitize_element_text (Some (Tag ''span'' [] [NavigableString '' 42'']))
     [''('', '')''] = Some ''42''"
  by (simp add: sanitize_element_text_def sanitize_text_def strip_def lstrip_def rstrip_def
      isspace_def)

subsection \<open>When the result is None\<close>

text \<open>
  C10, as the code has it. The result is \<open>None\<close> exactly when the element is false:
  when it is \<open>None\<close>, or an empty string. A tag is never false, so a tag whose text is
  empty or white space only gives the empty string.
\<close>

theorem sanitize_element_text_None_iff:
  "(sanitize_element_text element s = None \<longleftrightarrow>
      element = None \<or> element = Some (NavigableString [])) \<and>
   (truthy el \<and> (\<forall>c\<in>set (get_text el). isspace c) \<longrightarrow>
      sanitize_element_text (Some el) s = Some [])"
proof
  show "sanitize_element_text element s = None \<longleftrightarrow>
      element = None \<or> element = Some (NavigableString [])"
  proof (cases element)
    case None
    then show ?thesis by (simp add: sanitize_element_text_def)
  next
    case (Some n)
    then show ?thesis by (cases n) (simp_all add: sanitize_element_text_def)
  qed
  show "truthy el \<and> (\<forall>c\<in>set (get_text el). isspace c) \<longrightarrow>
      sanitize_element_text (Some el) s = Some []"
    by (simp add: sanitize_element_text_def sanitize_text_def strip_spaces
        fold_replace_empty_Nil)
qed

text \<open>
  The property at the empty string (result \<open>None\<close>) and at a tag holding two spaces
  (result the empty string).
\<close>

theorem sanitize_element_text_None_iff_witness:
  "truthy (Tag ''span'' [] [NavigableString ''  '']) \<and>
   list_all isspace (get_text (Tag ''span'' [] [NavigableString ''  ''])) \<and>
   sanitize_element_text (Some (Tag ''span'' [] [NavigableString ''  ''])) [''('', '')''] = Some [] \<and>
   sanitize_element_text (Some (NavigableString [])) [''('', '')''] = None"
  using sanitize_element_text_None_iff
    [of "Some (NavigableString [])" "[''('', '')'']" "Tag ''span'' [] [NavigableString ''  '']"]
  by (simp add: isspace_def)

text \<open>
  C10 as stated fails: a present element with empty text, the tag \<open><span></span>\<close>, does
  not give \<open>None\<close>.
\<close>

theorem sanitize_element_text_empty_tag:
  "get_text (Tag ''span'' [] []) = [] \<and>
   sanitize_element_text (Some (Tag ''span'' [] [])) [] \<noteq> None"
  by (simp add: sanitize_element_text_def)

section \<open>Properties of the detail page\<close>

subsection \<open>The loop over the reviews\<close>

lemma reviews_loop_Inr:
  "reviews_loop self soup lis items = Inr out \<Longrightarrow>
   map Inr out =
     map Inr items @
     map (review_of soup) (take (nat (number_of_reviews self - int (length items))) lis)"
proof (induction lis arbitrary: items)
  case Nil
  then show ?case by simp
next
  case (Cons review rest)
  show ?case
  proof (cases "int (length items) \<ge> number_of_reviews self")
    case True
    with Cons.prems show ?thesis by simp
  next
    case False
    then obtain k where k: "nat (number_of_reviews self - int (length items)) = Suc k"
      and k': "nat (number_of_reviews self - int (length (items @ [rd]))) = k" for rd :: review_data
      by (cases "nat (number_of_reviews self - int (length items))") auto
    from False Cons.prems obtain rd where rd: "review_of soup review = Inr rd"
      and rec: "reviews_loop self soup rest (items @ [rd]) = Inr out"
      by (auto split: sum.splits)
    from Cons.IH [OF rec] show ?thesis
      by (simp add: k k' rd del: length_append)
  qed
qed

lemma reviews_loop_total:
  "subscript (select sel_li_div_div soup) 1 = Inr b \<Longrightarrow>
   \<exists>out. reviews_loop self soup lis items = Inr out"
  by (induction lis arbitrary: items) (auto simp: review_of_def Let_def)

lemma extract_reviews_returns:
  "website_of soup = Inr site \<Longrightarrow> subscript (select sel_li_div_div soup) 1 = Inr b \<Longrightarrow>
   \<exists>rs. extract_reviews self soup = Inr (rs, site)"
proof -
  assume site: "website_of soup = Inr site"
    and b: "subscript (select sel_li_div_div soup) 1 = Inr b"
  show ?thesis
  proof (cases "select_one sel_reviews_list_block soup")
    case None
    with site show ?thesis by (simp add: extract_reviews_def)
  next
    case (Some block)
    from reviews_loop_total [OF b, of self "find_all block ''li'' None" "[]"]
    obtain out where "reviews_loop self soup (find_all block ''li'' None) [] = Inr out"
      by blast
    with site Some show ?thesis by (simp add: extract_reviews_def)
  qed
qed

lemma descs_context:
  "el \<in> set (descs ctx n) \<Longrightarrow> fst el \<noteq> []"
  "el \<in> set (descs_from ctx p i cs) \<Longrightarrow> fst el \<noteq> []"
  by (induction ctx n and ctx p i cs arbitrary: el and el rule: descs_descs_from.induct) auto

lemma find_all_parent: "el \<in> set (find_all soup nm str) \<Longrightarrow> parent el \<noteq> None"
proof -
  assume "el \<in> set (find_all soup nm str)"
  then have "el \<in> set (descs (fst soup) (snd soup))"
    by (simp add: find_all_def descendants_def)
  then have "fst el \<noteq> []" by (rule descs_context)
  then show ?thesis by (cases el, cases "fst el") auto
qed

lemma website_of_no_AttributeError: "website_of soup \<noteq> Inl AttributeError"
proof (cases "find_all soup ''p'' (Some ''Business website'')")
  case Nil
  then show ?thesis by (simp add: website_of_def)
next
  case (Cons label others)
  then have "label \<in> set (find_all soup ''p'' (Some ''Business website''))" by simp
  then have "parent label \<noteq> None" by (rule find_all_parent)
  with Cons show ?thesis
    by (auto simp: website_of_def subscript_def split: option.splits)
qed

subsection \<open>The cap on the reviews\<close>

text \<open>
  C5. When \<open>get_object_reviews\<close> returns a review list for a page, with a cap
  \<open>number_of_reviews\<close> that is not negative, the list is no longer than the cap. When
  the page has a reviews list, the reviews returned are those of its first items, in
  document order, as many as the cap allows; when the list holds more items than the
  cap, exactly as many as the cap are returned.
\<close>

theorem get_object_reviews_cap:
  assumes "0 \<le> number_of_reviews self"
    and "net (http_log w) \<lparr>url = object_url, params = None\<rparr> = Inr resp"
    and "get_object_reviews net self object_url w = (Inr (reviews_items, site), w1)"
  shows "int (length reviews_items) \<le> number_of_reviews self \<and>
    (\<forall>reviews_list_block.
       select_one sel_reviews_list_block ([], content resp) = Some reviews_list_block \<longrightarrow>
       map Inr reviews_items =
         map (review_of ([], content resp))
           (take (nat (number_of_reviews self)) (find_all reviews_list_block ''li'' None)) \<and>
       (number_of_reviews self < int (length (find_all reviews_list_block ''li'' None)) \<longrightarrow>
          int (length reviews_items) = number_of_reviews self))"
proof -
  let ?soup = "([], content resp)"
  from assms(2,3) have ex: "extract_reviews self ?soup = Inr (reviews_items, site)"
    by (simp add: get_object_reviews_def requests_get_def)
  show ?thesis
  proof (cases "select_one sel_reviews_list_block ?soup")
    case None
    with ex assms(1) show ?thesis
      by (auto simp: extract_reviews_def split: sum.splits)
  next
    case (Some block)
    let ?lis = "find_all block ''li'' None"
    from Some ex have "reviews_loop self ?soup ?lis [] = Inr reviews_items"
      by (auto simp: extract_reviews_def split: sum.splits)
    from reviews_loop_Inr [OF this]
    have eq: "map Inr reviews_items =
      map (review_of ?soup) (take (nat (number_of_reviews self)) ?lis)"
      by simp
    then have "length reviews_items = length (take (nat (number_of_reviews self)) ?lis)"
      by (metis length_map)
    then have len: "length reviews_items = min (length ?lis) (nat (number_of_reviews self))"
      by simp
    from len assms(1) have "int (length reviews_items) \<le> number_of_reviews self" by simp
    moreover from len assms(1)
    have "number_of_reviews self < int (length ?lis) \<longrightarrow>
      int (length reviews_items) = number_of_reviews self" by auto
    ultimately show ?thesis using eq Some by simp
  qed
qed

text \<open>A page with four reviews and a cap of three: the first three are returned.\<close>

lemma four_reviews_page_reviews:
  "get_object_reviews (serve 200 (document []) (Inr four_reviews_page)) bakery
       ''https://www.yelp.com/biz/cafe'' world0 =
     (Inr ([\<lparr>reviewer_name = Some ''r1'', reviewer_location = None, review_date = None\<rparr>,
            \<lparr>reviewer_name = Some ''r2'', reviewer_location = None, review_date = None\<rparr>,
            \<lparr>reviewer_name = Some ''r3'', reviewer_location = None, review_date = None\<rparr>],
           None),
      \<lparr>http_log = [\<lparr>url = ''https://www.yelp.com/biz/cafe'', params = None\<rparr>],
       fix_html = None\<rparr>)"
  by code_simp

theorem get_object_reviews_cap_witness:
  "number_of_reviews bakery = 3 \<and>
   map_option (\<lambda>reviews_list_block. length (find_all reviews_list_block ''li'' None))
     (select_one sel_reviews_list_block ([], four_reviews_page)) = Some 4 \<and>
   fst (get_object_reviews (serve 200 (document []) (Inr four_reviews_page)) bakery
       ''https://www.yelp.com/biz/cafe'' world0) =
     Inr ([\<lparr>reviewer_name = Some ''r1'', reviewer_location = None, review_date = None\<rparr>,
            \<lparr>reviewer_name = Some ''r2'', reviewer_location = None, review_date = None\<rparr>,
            \<lparr>reviewer_name = Some ''r3'', reviewer_location = None, review_date = None\<rparr>],
           None) \<and>
   int (length [\<lparr>reviewer_name = Some ''r1'', reviewer_location = None, review_date = None\<rparr>,
            \<lparr>reviewer_name = Some ''r2'', reviewer_location = None, review_date = None\<rparr>,
            \<lparr>reviewer_name = Some ''r3'', reviewer_location = None, review_date = None\<rparr>])
     \<le> number_of_reviews bakery"
proof -
  have n: "0 \<le> number_of_reviews bakery" "number_of_reviews bakery = 3"
    by (simp_all add: bakery_def)
  have r: "serve 200 (document []) (Inr four_reviews_page) (http_log world0)
      \<lparr>url = ''https://www.yelp.com/biz/cafe'', params = None\<rparr> =
    Inr \<lparr>status_code = 200, content = four_reviews_page\<rparr>"
    by (simp add: serve_def)
  have l: "map_option (\<lambda>reviews_list_block. length (find_all reviews_list_block ''li'' None))
     (select_one sel_reviews_list_block ([], four_reviews_page)) = Some 4"
    by code_simp
  show ?thesis
    using get_object_reviews_cap [OF n(1) r four_reviews_page_reviews] n(2) l
      four_reviews_page_reviews
    by simp
qed

subsection \<open>Subscripts out of range\<close>

text \<open>
  C2. Extraction from a detail page can raise. On a page whose \<open>Business website\<close>
  label is the only \<open>p\<close> of its container, \<open>find_all('p')[1]\<close> raises \<open>IndexError\<close>; on
  a page whose reviews list has an item while the page has fewer than two
  \<open>li > div > div\<close>, \<open>soup.select('li > div > div')[1]\<close> raises \<open>IndexError\<close>.
\<close>

theorem label_only_page_raises:
  "extract_reviews bakery ([], label_only_page) = Inl IndexError \<and>
   get_object_reviews (serve 200 (document []) (Inr label_only_page)) bakery
       ''https://www.yelp.com/biz/cafe'' world0 =
     (Inl IndexError,
      \<lparr>http_log = [\<lparr>url = ''https://www.yelp.com/biz/cafe'', params = None\<rparr>],
       fix_html = None\<rparr>) \<and>
   extract_reviews bakery ([], one_item_page) = Inl IndexError"
  by code_simp

section \<open>Properties of the listing cards\<close>

subsection \<open>One card, and the cards of a page\<close>

text \<open>The record of lines 98 to 104.\<close>

lemma get_object_data_nameless:
  "select_one sel_name the_card = None \<Longrightarrow>
   get_object_data net self the_card w =
     (Inr \<lparr>name = None,
           rating = sanitize_element_text (map_option snd (select_one sel_rating the_card)) [],
           reviews_count =
             sanitize_element_text (map_option snd (select_one sel_review_count the_card))
               [''('', '')''],
           yelp_url = None, reviews = [], website = None\<rparr>,
      w\<lparr>fix_html := Some (snd the_card)\<rparr>)"
  by (simp add: get_object_data_def sanitize_element_text_def)

lemma get_object_data_yelp_url:
  "get_object_data net self the_card w = (Inr od, w1) \<Longrightarrow>
   yelp_url od = None \<Longrightarrow> select_one sel_name the_card = None"
  by (cases "select_one sel_name the_card")
     (auto simp: get_object_data_def Let_def split: if_splits sum.splits prod.splits)

lemma get_object_data_log_only:
  "http_log w = http_log w' \<Longrightarrow>
   fst (get_object_data net self c w) = fst (get_object_data net self c w') \<and>
   http_log (snd (get_object_data net self c w)) =
     http_log (snd (get_object_data net self c w'))"
  by (auto simp: get_object_data_def Let_def get_object_reviews_def requests_get_def
      split: option.splits sum.splits prod.splits)

lemma cards_loop_log_only:
  "http_log w = http_log w' \<Longrightarrow>
   fst (cards_loop net self cards objects w) = fst (cards_loop net self cards objects w') \<and>
   http_log (snd (cards_loop net self cards objects w)) =
     http_log (snd (cards_loop net self cards objects w'))"
proof (induction cards arbitrary: objects w w')
  case Nil
  then show ?case by simp
next
  case (Cons c cards)
  obtain r w1 where a: "get_object_data net self c w = (r, w1)" by (cases "get_object_data net self c w")
  obtain r' w1' where b: "get_object_data net self c w' = (r', w1')" by (cases "get_object_data net self c w'")
  from get_object_data_log_only [OF Cons.prems, of net self c] a b
  have eq: "r' = r" "http_log w1 = http_log w1'" by simp_all
  note b = b [unfolded eq(1)]
  show ?case
  proof (cases r)
    case (Inl e)
    with a b eq(2) show ?thesis by simp
  next
    case (Inr od)
    with a b Cons.IH [OF eq(2)] show ?thesis by simp
  qed
qed

lemma get_object_data_listing_fetches:
  "listing_fetches (snd (get_object_data net self c w)) = listing_fetches w"
  by (auto simp: get_object_data_def Let_def get_object_reviews_def requests_get_def
      listing_fetches_def split: option.splits sum.splits prod.splits)

lemma cards_loop_listing_fetches:
  "listing_fetches (snd (cards_loop net self cards objects w)) = listing_fetches w"
proof (induction cards arbitrary: objects w)
  case Nil
  then show ?case by simp
next
  case (Cons c cards)
  obtain r w1 where a: "get_object_data net self c w = (r, w1)" by (cases "get_object_data net self c w")
  with get_object_data_listing_fetches [of net self c w]
  have "listing_fetches w1 = listing_fetches w" by simp
  with a Cons.IH [of _ w1] show ?case by (cases r) simp_all
qed

text \<open>The loop over a list of cards is the loop over a first part, then over the rest.\<close>

lemma cards_loop_append:
  "cards_loop net self (earlier @ later) objects w =
     (case cards_loop net self earlier objects w of
        (Inl e, w1) \<Rightarrow> (Inl e, w1)
      | (Inr objects', w1) \<Rightarrow> cards_loop net self later objects' w1)"
proof (induction earlier arbitrary: objects w)
  case Nil
  then show ?case by simp
next
  case (Cons c earlier)
  show ?case
  proof (cases "get_object_data net self c w")
    case (Pair r w1)
    with Cons.IH show ?thesis by (cases r) simp_all
  qed
qed

subsection \<open>A card without a name link\<close>

text \<open>
  C9. A record that \<open>get_object_data\<close> returns with no \<open>yelp_url\<close> was built without any
  request: the log of requests is unchanged, the reviews are empty, the record has no
  \<open>website\<close>, and it is the record of lines 98 to 104 as it was built.
\<close>

theorem absent_url_no_fetch:
  assumes "get_object_data net self the_card w = (Inr od, w1)"
    and "yelp_url od = None"
  shows "http_log w1 = http_log w \<and> reviews od = [] \<and> website od = None \<and>
    od = \<lparr>name = None,
          rating = sanitize_element_text (map_option snd (select_one sel_rating the_card)) [],
          reviews_count =
            sanitize_element_text (map_option snd (select_one sel_review_count the_card))
              [''('', '')''],
          yelp_url = None, reviews = [], website = None\<rparr>"
proof -
  have "select_one sel_name the_card = None"
    using assms by (rule get_object_data_yelp_url)
  from get_object_data_nameless [OF this, of net self w] assms(1)
  show ?thesis by auto
qed

text \<open>The property at the sample card without a name link.\<close>

lemma card_nameless_data:
  "get_object_data (serve 200 (document []) (Inr (document []))) bakery ([], card_nameless) world0 =
     (Inr \<lparr>name = None, rating = None, reviews_count = None, yelp_url = None, reviews = [],
           website = None\<rparr>,
      \<lparr>http_log = [], fix_html = Some card_nameless\<rparr>)"
  by code_simp

theorem absent_url_no_fetch_witness:
  "get_object_data (serve 200 (document []) (Inr (document []))) bakery ([], card_nameless) world0 =
     (Inr \<lparr>name = None, rating = None, reviews_count = None, yelp_url = None, reviews = [],
           website = None\<rparr>,
      \<lparr>http_log = [], fix_html = Some card_nameless\<rparr>) \<and>
   http_log \<lparr>http_log = [], fix_html = Some card_nameless\<rparr> = http_log world0"
  using absent_url_no_fetch [OF card_nameless_data] card_nameless_data by simp

text \<open>
  C8. For a card without a name link, \<open>get_object_data\<close> returns a record with
  \<open>name\<close> and \<open>yelp_url\<close> \<open>None\<close> and raises nothing; the markup of the card goes to
  \<open>fix.html\<close> and not into the record; the loop goes on with the remaining cards, and
  what it returns for them and the requests it makes are the same as without the write.
\<close>

theorem nameless_card_emitted:
  assumes "select_one sel_name the_card = None"
  shows "get_object_data net self the_card w =
      (Inr \<lparr>name = None,
            rating = sanitize_element_text (map_option snd (select_one sel_rating the_card)) [],
            reviews_count =
              sanitize_element_text (map_option snd (select_one sel_review_count the_card))
                [''('', '')''],
            yelp_url = None, reviews = [], website = None\<rparr>,
       w\<lparr>fix_html := Some (snd the_card)\<rparr>) \<and>
    cards_loop net self (the_card # cards) objects w =
      cards_loop net self cards
        (objects @
         [\<lparr>name = None,
           rating = sanitize_element_text (map_option snd (select_one sel_rating the_card)) [],
           reviews_count =
             sanitize_element_text (map_option snd (select_one sel_review_count the_card))
               [''('', '')''],
           yelp_url = None, reviews = [], website = None\<rparr>])
        (w\<lparr>fix_html := Some (snd the_card)\<rparr>) \<and>
    fst (cards_loop net self cards objects' (w\<lparr>fix_html := Some (snd the_card)\<rparr>)) =
      fst (cards_loop net self cards objects' w) \<and>
    http_log (snd (cards_loop net self cards objects' (w\<lparr>fix_html := Some (snd the_card)\<rparr>))) =
      http_log (snd (cards_loop net self cards objects' w))"
proof -
  note d = get_object_data_nameless [OF assms, of net self w]
  have "http_log (w\<lparr>fix_html := Some (snd the_card)\<rparr>) = http_log w" by simp
  from cards_loop_log_only [OF this, of net self cards objects'] d
  show ?thesis by simp
qed

text \<open>
  A page of two cards, the first without a name link: both records are returned, the
  second with its name and link.
\<close>

lemma two_cards:
  "select_one sel_name ([], card_nameless) = None \<and>
   cards_loop (serve 200 (document []) (Inr (document []))) bakery
       [([], card_nameless), ([], card_named)] [] world0 =
     (Inr [\<lparr>name = None, rating = None, reviews_count = None, yelp_url = None,
            reviews = [], website = None\<rparr>,
           \<lparr>name = Some ''Cafe'', rating = None, reviews_count = None,
            yelp_url = Some ''https://www.yelp.com/biz/cafe'', reviews = [],
            website = Some None\<rparr>],
      \<lparr>http_log = [\<lparr>url = ''https://www.yelp.com/biz/cafe'', params = None\<rparr>],
       fix_html = Some card_nameless\<rparr>)"
  by code_simp

theorem nameless_card_emitted_witness:
  "select_one sel_name ([], card_nameless) = None \<and>
   get_object_data (serve 200 (document []) (Inr (document []))) bakery ([], card_nameless)
       world0 =
     (Inr \<lparr>name = None, rating = None, reviews_count = None, yelp_url = None, reviews = [],
           website = None\<rparr>,
      \<lparr>http_log = [], fix_html = Some card_nameless\<rparr>) \<and>
   cards_loop (serve 200 (document []) (Inr (document []))) bakery
       [([], card_nameless), ([], card_named)] [] world0 =
     (Inr [\<lparr>name = None, rating = None, reviews_count = None, yelp_url = None,
            reviews = [], website = None\<rparr>,
           \<lparr>name = Some ''Cafe'', rating = None, reviews_count = None,
            yelp_url = Some ''https://www.yelp.com/biz/cafe'', reviews = [],
            website = Some None\<rparr>],
      \<lparr>http_log = [\<lparr>url = ''https://www.yelp.com/biz/cafe'', params = None\<rparr>],
       fix_html = Some card_nameless\<rparr>)"
proof -
  have n: "select_one sel_name ([], card_nameless) = None"
    using two_cards by simp
  have r: "sanitize_element_text (map_option snd (select_one sel_rating ([], card_nameless))) [] = None"
    "sanitize_element_text (map_option snd (select_one sel_review_count ([], card_nameless)))
       [''('', '')''] = None"
    by code_simp+
  show ?thesis
    using nameless_card_emitted [OF n, of "serve 200 (document []) (Inr (document []))" bakery
        world0 "[([], card_named)]" "[]" "[]"] two_cards r
    by (simp add: world0_def)
qed

subsection \<open>A card with a name link\<close>

lemma get_object_data_named:
  assumes "select_one sel_name the_card = Some el"
  shows "get_object_data net self the_card w =
    (case net (http_log w)
            \<lparr>url = ''https://www.yelp.com'' @ str_of (get_attr el ''href''), params = None\<rparr> of
       Inl e \<Rightarrow>
         (Inl e,
          w\<lparr>http_log := http_log w @
             [\<lparr>url = ''https://www.yelp.com'' @ str_of (get_attr el ''href''),
               params = None\<rparr>]\<rparr>)
     | Inr resp \<Rightarrow>
         (case extract_reviews self ([], content resp) of
            Inl e \<Rightarrow>
              (Inl e,
               w\<lparr>http_log := http_log w @
                  [\<lparr>url = ''https://www.yelp.com'' @ str_of (get_attr el ''href''),
                    params = None\<rparr>]\<rparr>)
          | Inr (rs, site) \<Rightarrow>
              (Inr \<lparr>name = sanitize_element_text (Some (snd el)) [],
                    rating =
                      sanitize_element_text (map_option snd (select_one sel_rating the_card)) [],
                    reviews_count =
                      sanitize_element_text
                        (map_option snd (select_one sel_review_count the_card)) [''('', '')''],
                    yelp_url =
                      Some (''https://www.yelp.com'' @ str_of (get_attr el ''href'')),
                    reviews = rs, website = Some site\<rparr>,
               w\<lparr>http_log := http_log w @
                  [\<lparr>url = ''https://www.yelp.com'' @ str_of (get_attr el ''href''),
                    params = None\<rparr>]\<rparr>)))"
  using assms
  by (simp add: get_object_data_def get_object_reviews_def requests_get_def Let_def
      split: sum.splits prod.splits)

lemma extract_reviews_empty: "extract_reviews self ([], document []) = Inr ([], None)"
  by (simp add: extract_reviews_def website_of_def find_all_def select_one_def select_def
      descendants_def document_def)

lemma named_link:
  "select_one sel_name ([], card_named) = Some ([(name_box, 0), (card_named, 0)], name_link)"
  "select sel_business_cards ([], document [card_named]) =
     [([(document [card_named], 0)], card_named)]"
  "select_one sel_name ([(document [card_named], 0)], card_named) =
     Some ([(name_box, 0), (card_named, 0), (document [card_named], 0)], name_link)"
  "find_all ([], document [card_named]) ''h3'' (Some error_text) = []"
  by code_simp+

lemma named_values:
  "str_of (get_attr (ctx, name_link) ''href'') = ''/biz/cafe''"
  "sanitize_element_text (Some name_link) [] = Some ''Cafe''"
  "sanitize_element_text (map_option snd (select_one sel_rating ([], card_named))) [] = None"
  "sanitize_element_text (map_option snd (select_one sel_review_count ([], card_named)))
     [''('', '')''] = None"
     apply (simp add: get_attr_def name_link_def str_of_def)
    apply code_simp+
  done

lemma two_cards_page_facts:
  "select sel_business_cards ([], two_cards_page) =
     [([(two_cards_page, 0)], card_named), ([(two_cards_page, 1)], card_named)]"
  "find_all ([], two_cards_page) ''h3'' (Some error_text) = []"
  "select_one sel_name ([(two_cards_page, 1)], card_named) =
     Some ([(name_box, 0), (card_named, 0), (two_cards_page, 1)], name_link)"
  "cards_loop (serve_first two_cards_page) bakery [([(two_cards_page, 0)], card_named)] []
       \<lparr>http_log = [listing_request bakery 0], fix_html = None\<rparr> =
     (Inr [\<lparr>name = Some ''Cafe'', rating = None, reviews_count = None,
            yelp_url = Some ''https://www.yelp.com/biz/cafe'', reviews = [],
            website = Some None\<rparr>],
      \<lparr>http_log = [listing_request bakery 0,
                    \<lparr>url = ''https://www.yelp.com/biz/cafe'', params = None\<rparr>],
       fix_html = None\<rparr>)"
  by code_simp+

section \<open>Properties of the pagination loop\<close>

subsection \<open>One iteration\<close>

lemma pages_loop_limit:
  "(case max_pages self of None \<Rightarrow> False | Some m \<Rightarrow> page + 1 > m) \<Longrightarrow>
   pages_loop net self page objects w = Some (Inr objects, w)"
  by (subst pages_loop.simps) (simp add: Let_def)

lemma pages_loop_raise:
  assumes "case max_pages self of None \<Rightarrow> True | Some m \<Rightarrow> page + 1 \<le> m"
    and "net (http_log w) (listing_request self (page * 10)) = Inl e"
  shows "pages_loop net self page objects w =
     Some (Inl e, w\<lparr>http_log := http_log w @ [listing_request self (page * 10)]\<rparr>)"
  using assms
  by (subst pages_loop.simps) (auto simp: Let_def requests_get_def split: option.splits)

lemma pages_loop_fetch:
  assumes "case max_pages self of None \<Rightarrow> True | Some m \<Rightarrow> page + 1 \<le> m"
    and "net (http_log w) (listing_request self (page * 10)) = Inr resp"
  shows "pages_loop net self page objects w =
     (if find_all ([], content resp) ''h3'' (Some error_text) \<noteq> []
      then Some (Inr objects, w\<lparr>http_log := http_log w @ [listing_request self (page * 10)]\<rparr>)
      else (case cards_loop net self (select sel_business_cards ([], content resp)) objects
                   (w\<lparr>http_log := http_log w @ [listing_request self (page * 10)]\<rparr>) of
              (Inl e, w2) \<Rightarrow> Some (Inl e, w2)
            | (Inr objects', w2) \<Rightarrow> pages_loop net self (page + 1) objects' w2))"
  using assms
  by (subst pages_loop.simps) (auto simp: Let_def requests_get_def split: option.splits)

lemma pages_loop_bounded:
  "max_pages self = Some k \<Longrightarrow>
   \<exists>r w'. pages_loop net self page objects w = Some (r, w') \<and>
          listing_fetches w' \<le> listing_fetches w + nat (k - page)"
proof (induction "nat (k - page)" arbitrary: page objects w)
  case 0
  then have "pages_loop net self page objects w = Some (Inr objects, w)"
    by (intro pages_loop_limit) simp
  then show ?case by simp
next
  case (Suc n)
  then have lim: "case max_pages self of None \<Rightarrow> True | Some m \<Rightarrow> page + 1 \<le> m"
    by simp
  let ?w1 = "w\<lparr>http_log := http_log w @ [listing_request self (page * 10)]\<rparr>"
  have w1: "listing_fetches ?w1 = Suc (listing_fetches w)"
    by (simp add: listing_fetches_def listing_request_def)
  from Suc.hyps(2) have k: "nat (k - page) = Suc n" by simp
  show ?case
  proof (cases "net (http_log w) (listing_request self (page * 10))")
    case (Inl e)
    have "pages_loop net self page objects w = Some (Inl e, ?w1)"
      using lim Inl by (rule pages_loop_raise)
    with w1 k show ?thesis by simp
  next
    case (Inr resp)
    note step = pages_loop_fetch
      [where self = self and page = page and net = net and w = w and objects = objects,
        OF lim Inr]
    show ?thesis
    proof (cases "find_all ([], content resp) ''h3'' (Some error_text) \<noteq> []")
      case True
      with step w1 k show ?thesis by simp
    next
      case False
      obtain r w2 where c: "cards_loop net self (select sel_business_cards ([], content resp))
          objects ?w1 = (r, w2)"
        by (cases "cards_loop net self (select sel_business_cards ([], content resp)) objects ?w1")
      with cards_loop_listing_fetches
        [of net self "select sel_business_cards ([], content resp)" objects ?w1] w1
      have w2: "listing_fetches w2 = Suc (listing_fetches w)" by simp
      show ?thesis
      proof (cases r)
        case (Inl e)
        with step False c w2 k show ?thesis by simp
      next
        case (Inr objects')
        have "n = nat (k - (page + 1))" using k by simp
        from Suc.hyps(1) [OF this Suc.prems, of objects' w2]
        obtain r' w' where "pages_loop net self (page + 1) objects' w2 = Some (r', w')"
          and "listing_fetches w' \<le> listing_fetches w2 + nat (k - (page + 1))" by blast
        with step False c Inr w2 k show ?thesis by simp
      qed
    qed
  qed
qed

subsection \<open>The page with the error message\<close>

lemma find_all_nonempty:
  "find_all soup nm (Some s) \<noteq> [] \<longleftrightarrow>
   (\<exists>h\<in>set (descendants soup). is_tag (snd h) \<and> tag_name (snd h) = nm \<and> node_string (snd h) = Some s)"
  by (auto simp: find_all_def filter_empty_conv)

text \<open>
  C7. A fetched listing page ends the loop exactly when some \<open>h3\<close> below the document
  has \<open>.string\<close> equal to the error message. When there is one, the loop returns the
  objects collected so far and the request for this page is the last one made. When
  there is none, the loop goes on with the cards of the page and then the next page.
\<close>

theorem terminal_page_stops:
  assumes "case max_pages self of None \<Rightarrow> True | Some m \<Rightarrow> page + 1 \<le> m"
    and "net (http_log w) (listing_request self (page * 10)) = Inr resp"
  shows
    "((\<exists>h\<in>set (descendants ([], content resp)).
         is_tag (snd h) \<and> tag_name (snd h) = ''h3'' \<and> node_string (snd h) = Some error_text) \<longrightarrow>
      pages_loop net self page objects w =
        Some (Inr objects, w\<lparr>http_log := http_log w @ [listing_request self (page * 10)]\<rparr>)) \<and>
     (\<not> (\<exists>h\<in>set (descendants ([], content resp)).
         is_tag (snd h) \<and> tag_name (snd h) = ''h3'' \<and> node_string (snd h) = Some error_text) \<longrightarrow>
      pages_loop net self page objects w =
        (case cards_loop net self (select sel_business_cards ([], content resp)) objects
                (w\<lparr>http_log := http_log w @ [listing_request self (page * 10)]\<rparr>) of
           (Inl e, w2) \<Rightarrow> Some (Inl e, w2)
         | (Inr objects', w2) \<Rightarrow> pages_loop net self (page + 1) objects' w2))"
proof -
  let ?T = "\<exists>h\<in>set (descendants ([], content resp)).
    is_tag (snd h) \<and> tag_name (snd h) = ''h3'' \<and> node_string (snd h) = Some error_text"
  note step = pages_loop_fetch
    [where self = self and page = page and net = net and w = w and objects = objects,
      OF assms]
  have iff: "find_all ([], content resp) ''h3'' (Some error_text) \<noteq> [] \<longleftrightarrow> ?T"
    by (rule find_all_nonempty)
  show ?thesis
  proof (intro conjI impI)
    assume t: ?T
    with iff have "find_all ([], content resp) ''h3'' (Some error_text) \<noteq> []" by blast
    with step show "pages_loop net self page objects w =
        Some (Inr objects, w\<lparr>http_log := http_log w @ [listing_request self (page * 10)]\<rparr>)"
      by simp
  next
    assume f: "\<not> ?T"
    with iff have "find_all ([], content resp) ''h3'' (Some error_text) = []" by blast
    with step show "pages_loop net self page objects w =
        (case cards_loop net self (select sel_business_cards ([], content resp)) objects
                (w\<lparr>http_log := http_log w @ [listing_request self (page * 10)]\<rparr>) of
           (Inl e, w2) \<Rightarrow> Some (Inl e, w2)
         | (Inr objects', w2) \<Rightarrow> pages_loop net self (page + 1) objects' w2)"
      by simp
  qed
qed

text \<open>
  The page with the error message ends the run after one request. A heading that has
  the message followed by a space does not: the run makes both requests the page limit
  allows.
\<close>

lemma near_miss_run:
  "\<not> list_ex (\<lambda>h. is_tag (snd h) \<and> tag_name (snd h) = ''h3'' \<and>
       node_string (snd h) = Some error_text) (descendants ([], near_miss_page)) \<and>
   get_objects_list (serve 200 near_miss_page (Inr (document []))) bakery world0 =
     Some (Inr [], \<lparr>http_log = [listing_request bakery 0, listing_request bakery 10],
                    fix_html = None\<rparr>)"
  by code_simp

theorem terminal_page_stops_witness:
  "list_ex (\<lambda>h. is_tag (snd h) \<and> tag_name (snd h) = ''h3'' \<and> node_string (snd h) = Some error_text)
     (descendants ([], terminal_page)) \<and>
   pages_loop (serve 200 terminal_page (Inr (document []))) bakery 0 [] world0 =
     Some (Inr [], \<lparr>http_log = [listing_request bakery 0], fix_html = None\<rparr>) \<and>
   \<not> list_ex (\<lambda>h. is_tag (snd h) \<and> tag_name (snd h) = ''h3'' \<and>
       node_string (snd h) = Some error_text) (descendants ([], near_miss_page)) \<and>
   get_objects_list (serve 200 near_miss_page (Inr (document []))) bakery world0 =
     Some (Inr [], \<lparr>http_log = [listing_request bakery 0, listing_request bakery 10],
                    fix_html = None\<rparr>)"
proof -
  have lim: "case max_pages bakery of None \<Rightarrow> True | Some m \<Rightarrow> 0 + 1 \<le> m"
    by (simp add: bakery_def)
  have resp: "serve 200 terminal_page (Inr (document [])) (http_log world0)
      (listing_request bakery (0 * 10)) = Inr \<lparr>status_code = 200, content = terminal_page\<rparr>"
    by (simp add: serve_def listing_request_def)
  have h: "list_ex (\<lambda>h. is_tag (snd h) \<and> tag_name (snd h) = ''h3'' \<and>
      node_string (snd h) = Some error_text) (descendants ([], terminal_page))"
    by (simp add: terminal_page_def document_def descendants_def)
  show ?thesis
    using terminal_page_stops
      [where self = bakery and page = 0 and net = "serve 200 terminal_page (Inr (document []))"
        and w = world0 and objects = "[]", OF lim resp] h near_miss_run
    by (simp add: list_ex_iff world0_def)
qed

subsection \<open>A page without cards\<close>

text \<open>
  C1, as the code has it. A fetched listing page that has no error message and no card
  adds nothing to the objects and does not end the loop: the loop goes on with the next
  page. It ends there only if the page counter then exceeds \<open>max_pages\<close>.
\<close>

theorem empty_page_continues:
  assumes "case max_pages self of None \<Rightarrow> True | Some m \<Rightarrow> page + 1 \<le> m"
    and "net (http_log w) (listing_request self (page * 10)) = Inr resp"
    and "find_all ([], content resp) ''h3'' (Some error_text) = []"
    and "select sel_business_cards ([], content resp) = []"
  shows "pages_loop net self page objects w =
      pages_loop net self (page + 1) objects
        (w\<lparr>http_log := http_log w @ [listing_request self (page * 10)]\<rparr>) \<and>
    ((case max_pages self of None \<Rightarrow> False | Some m \<Rightarrow> page + 2 > m) \<longrightarrow>
      pages_loop net self page objects w =
        Some (Inr objects, w\<lparr>http_log := http_log w @ [listing_request self (page * 10)]\<rparr>))"
proof -
  let ?w1 = "w\<lparr>http_log := http_log w @ [listing_request self (page * 10)]\<rparr>"
  note step = pages_loop_fetch
    [where self = self and page = page and net = net and w = w and objects = objects,
      OF assms(1,2)]
  from step assms(3,4)
  have eq: "pages_loop net self page objects w = pages_loop net self (page + 1) objects ?w1"
    by simp
  have "pages_loop net self (page + 1) objects ?w1 = Some (Inr objects, ?w1)"
    if "case max_pages self of None \<Rightarrow> False | Some m \<Rightarrow> page + 2 > m"
    using that by (intro pages_loop_limit) (simp split: option.splits)
  with eq show ?thesis by simp
qed

text \<open>
  With two pages allowed and every page empty: the first iteration hands over to the
  second, which fetches the second page and ends at the limit.
\<close>

theorem empty_page_continues_witness:
  "find_all ([], document []) ''h3'' (Some error_text) = [] \<and>
   select sel_business_cards ([], document []) = [] \<and>
   pages_loop (serve 200 (document []) (Inr (document []))) bakery 0 [] world0 =
     pages_loop (serve 200 (document []) (Inr (document []))) bakery 1 []
       \<lparr>http_log = [listing_request bakery 0], fix_html = None\<rparr> \<and>
   pages_loop (serve 200 (document []) (Inr (document []))) bakery 1 []
       \<lparr>http_log = [listing_request bakery 0], fix_html = None\<rparr> =
     Some (Inr [], \<lparr>http_log = [listing_request bakery 0, listing_request bakery 10],
                    fix_html = None\<rparr>)"
proof -
  let ?net = "serve 200 (document []) (Inr (document []))"
  have lim0: "case max_pages bakery of None \<Rightarrow> True | Some m \<Rightarrow> 0 + 1 \<le> m"
    and lim1: "case max_pages bakery of None \<Rightarrow> True | Some m \<Rightarrow> 1 + 1 \<le> m"
    and last: "case max_pages bakery of None \<Rightarrow> False | Some m \<Rightarrow> 1 + 2 > m"
    by (simp_all add: bakery_def)
  have resp: "?net (http_log w) (listing_request bakery (p * 10)) =
      Inr \<lparr>status_code = 200, content = document []\<rparr>" for w p
    by (simp add: serve_def listing_request_def)
  have h: "find_all ([], content \<lparr>status_code = 200, content = document []\<rparr>) ''h3''
      (Some error_text) = []"
    and c: "select sel_business_cards ([], content \<lparr>status_code = 200, content = document []\<rparr>) = []"
    by (simp_all add: find_all_def select_def descendants_def document_def)
  note first = empty_page_continues
    [where self = bakery and page = 0 and net = ?net and w = world0 and objects = "[]",
      OF lim0 resp h c]
  note second = empty_page_continues
    [where self = bakery and page = 1 and net = ?net
      and w = "\<lparr>http_log = [listing_request bakery 0], fix_html = None\<rparr>" and objects = "[]",
      OF lim1 resp h c]
  from first have a: "pages_loop ?net bakery 0 [] world0 =
      pages_loop ?net bakery 1 [] \<lparr>http_log = [listing_request bakery 0], fix_html = None\<rparr>"
    by (simp add: world0_def)
  from second [THEN conjunct2, rule_format, OF last]
  have b: "pages_loop ?net bakery 1 [] \<lparr>http_log = [listing_request bakery 0], fix_html = None\<rparr> =
      Some (Inr [], \<lparr>http_log = [listing_request bakery 0, listing_request bakery 10],
                     fix_html = None\<rparr>)"
    by simp
  from h c have "find_all ([], document []) ''h3'' (Some error_text) = []"
    and "select sel_business_cards ([], document []) = []" by simp_all
  with a b show ?thesis by (intro conjI)
qed

text \<open>
  C1 as stated fails: the first listing page has no card and no error message, and the
  listing page at offset 10 is fetched after it.
\<close>

theorem empty_page_next_fetch:
  "find_all ([], document []) ''h3'' (Some error_text) = [] \<and>
   select sel_business_cards ([], document []) = [] \<and>
   max_pages bakery = Some 2 \<and>
   get_objects_list (serve 200 (document []) (Inr (document []))) bakery world0 =
     Some (Inr [], \<lparr>http_log = [listing_request bakery 0, listing_request bakery 10],
                    fix_html = None\<rparr>)"
  by code_simp

subsection \<open>The page limit\<close>

text \<open>
  C6. With \<open>max_pages = k\<close> the loop returns, and it has requested at most \<open>k\<close> listing
  pages (none when \<open>k\<close> is negative: \<open>nat k\<close> is \<open>k\<close> for \<open>k\<close> from 0 on, and 0
  below). The counter starts at 0 in \<open>get_objects_list\<close> and is incremented before it is
  compared: an iteration entered with \<open>page + 1 > k\<close> returns without a request.
\<close>

theorem listing_fetches_bounded:
  "max_pages self = Some k \<Longrightarrow>
   (\<exists>r w'. get_objects_list net self w = Some (r, w') \<and>
            listing_fetches w' \<le> listing_fetches w + nat k) \<and>
   (k < page + 1 \<longrightarrow> pages_loop net self page objects w = Some (Inr objects, w))"
proof
  assume k: "max_pages self = Some k"
  from pages_loop_bounded [OF k, of net 0 "[]" w]
  show "\<exists>r w'. get_objects_list net self w = Some (r, w') \<and>
            listing_fetches w' \<le> listing_fetches w + nat k"
    by (simp add: get_objects_list_def)
  show "k < page + 1 \<longrightarrow> pages_loop net self page objects w = Some (Inr objects, w)"
    using k by (auto intro: pages_loop_limit)
qed

text \<open>
  Two pages allowed, one card on every page: two listing requests and two detail
  requests are made, and an iteration entered with \<open>page = 2\<close> makes none.
\<close>

lemma two_pages_run:
  "get_objects_list (serve 200 (document [card_named]) (Inr (document []))) bakery world0 =
     Some (Inr [\<lparr>name = Some ''Cafe'', rating = None, reviews_count = None,
                 yelp_url = Some ''https://www.yelp.com/biz/cafe'', reviews = [],
                 website = Some None\<rparr>,
                \<lparr>name = Some ''Cafe'', rating = None, reviews_count = None,
                 yelp_url = Some ''https://www.yelp.com/biz/cafe'', reviews = [],
                 website = Some None\<rparr>],
           \<lparr>http_log =
              [listing_request bakery 0,
               \<lparr>url = ''https://www.yelp.com/biz/cafe'', params = None\<rparr>,
               listing_request bakery 10,
               \<lparr>url = ''https://www.yelp.com/biz/cafe'', params = None\<rparr>],
            fix_html = None\<rparr>)"
  by code_simp

theorem listing_fetches_bounded_witness:
  "max_pages bakery = Some 2 \<and> listing_fetches world0 = 0 \<and>
   get_objects_list (serve 200 (document [card_named]) (Inr (document []))) bakery world0 =
     Some (Inr [\<lparr>name = Some ''Cafe'', rating = None, reviews_count = None,
                 yelp_url = Some ''https://www.yelp.com/biz/cafe'', reviews = [],
                 website = Some None\<rparr>,
                \<lparr>name = Some ''Cafe'', rating = None, reviews_count = None,
                 yelp_url = Some ''https://www.yelp.com/biz/cafe'', reviews = [],
                 website = Some None\<rparr>],
           \<lparr>http_log =
              [listing_request bakery 0,
               \<lparr>url = ''https://www.yelp.com/biz/cafe'', params = None\<rparr>,
               listing_request bakery 10,
               \<lparr>url = ''https://www.yelp.com/biz/cafe'', params = None\<rparr>],
            fix_html = None\<rparr>) \<and>
   listing_fetches
     \<lparr>http_log =
        [listing_request bakery 0,
         \<lparr>url = ''https://www.yelp.com/biz/cafe'', params = None\<rparr>,
         listing_request bakery 10,
         \<lparr>url = ''https://www.yelp.com/biz/cafe'', params = None\<rparr>],
      fix_html = None\<rparr> = 2 \<and>
   pages_loop (serve 200 (document [card_named]) (Inr (document []))) bakery 2 [] world0 =
     Some (Inr [], world0)"
proof -
  have k: "max_pages bakery = Some 2" by (simp add: bakery_def)
  have n: "listing_fetches world0 = 0"
    "listing_fetches
     \<lparr>http_log =
        [listing_request bakery 0,
         \<lparr>url = ''https://www.yelp.com/biz/cafe'', params = None\<rparr>,
         listing_request bakery 10,
         \<lparr>url = ''https://www.yelp.com/biz/cafe'', params = None\<rparr>],
      fix_html = None\<rparr> = 2"
    by (simp_all add: listing_fetches_def world0_def listing_request_def)
  show ?thesis
    using listing_fetches_bounded [OF k, of "serve 200 (document [card_named]) (Inr (document []))"
        world0 2 "[]"] k n two_pages_run
    by simp
qed

subsection \<open>Failing requests\<close>

text \<open>
  C3, as the code has it. An exception raised by a request is caught nowhere. Raised by
  the request of a listing page, it ends the loop with that exception. Raised by the
  request of the detail page of a card, it leaves \<open>get_object_data\<close> with that
  exception and ends the loop with it, whichever card of the page it is: the cards
  before it have been processed, the failing request is the last one made, and no
  objects are returned. A response is parsed whatever its status: a card whose detail
  response has an empty document gets empty reviews and the website \<open>None\<close>.
\<close>

theorem transport_failure:
  "((case max_pages self of None \<Rightarrow> True | Some m \<Rightarrow> page + 1 \<le> m) \<and>
    net (http_log w) (listing_request self (page * 10)) = Inl e \<longrightarrow>
      pages_loop net self page objects w =
        Some (Inl e, w\<lparr>http_log := http_log w @ [listing_request self (page * 10)]\<rparr>)) \<and>
   ((case max_pages self of None \<Rightarrow> True | Some m \<Rightarrow> page + 1 \<le> m) \<and>
    net (http_log w) (listing_request self (page * 10)) = Inr resp \<and>
    find_all ([], content resp) ''h3'' (Some error_text) = [] \<and>
    select sel_business_cards ([], content resp) = earlier @ the_card # later \<and>
    cards_loop net self earlier objects
        (w\<lparr>http_log := http_log w @ [listing_request self (page * 10)]\<rparr>) =
      (Inr objects', w') \<and>
    select_one sel_name the_card = Some el \<and>
    net (http_log w')
        \<lparr>url = ''https://www.yelp.com'' @ str_of (get_attr el ''href''), params = None\<rparr> =
      Inl e \<longrightarrow>
      pages_loop net self page objects w =
        Some (Inl e,
              w'\<lparr>http_log := http_log w' @
                 [\<lparr>url = ''https://www.yelp.com'' @ str_of (get_attr el ''href''),
                   params = None\<rparr>]\<rparr>)) \<and>
   (select_one sel_name the_card = Some el \<and>
    net (http_log w)
        \<lparr>url = ''https://www.yelp.com'' @ str_of (get_attr el ''href''), params = None\<rparr> =
      Inl e \<longrightarrow>
      get_object_data net self the_card w =
        (Inl e,
         w\<lparr>http_log := http_log w @
            [\<lparr>url = ''https://www.yelp.com'' @ str_of (get_attr el ''href''),
              params = None\<rparr>]\<rparr>)) \<and>
   (select_one sel_name the_card = Some el \<and>
    net (http_log w)
        \<lparr>url = ''https://www.yelp.com'' @ str_of (get_attr el ''href''), params = None\<rparr> =
      Inr dresp \<and>
    content dresp = document [] \<longrightarrow>
      get_object_data net self the_card w =
        (Inr \<lparr>name = sanitize_element_text (Some (snd el)) [],
              rating = sanitize_element_text (map_option snd (select_one sel_rating the_card)) [],
              reviews_count =
                sanitize_element_text (map_option snd (select_one sel_review_count the_card))
                  [''('', '')''],
              yelp_url = Some (''https://www.yelp.com'' @ str_of (get_attr el ''href'')),
              reviews = [], website = Some None\<rparr>,
         w\<lparr>http_log := http_log w @
            [\<lparr>url = ''https://www.yelp.com'' @ str_of (get_attr el ''href''),
              params = None\<rparr>]\<rparr>))"
proof (intro conjI impI)
  assume "(case max_pages self of None \<Rightarrow> True | Some m \<Rightarrow> page + 1 \<le> m) \<and>
    net (http_log w) (listing_request self (page * 10)) = Inl e"
  then have lim: "case max_pages self of None \<Rightarrow> True | Some m \<Rightarrow> page + 1 \<le> m"
    and f: "net (http_log w) (listing_request self (page * 10)) = Inl e" by simp_all
  from lim f show "pages_loop net self page objects w =
      Some (Inl e, w\<lparr>http_log := http_log w @ [listing_request self (page * 10)]\<rparr>)"
    by (rule pages_loop_raise)
next
  let ?w1 = "w\<lparr>http_log := http_log w @ [listing_request self (page * 10)]\<rparr>"
  let ?req = "\<lparr>url = ''https://www.yelp.com'' @ str_of (get_attr el ''href''), params = None\<rparr>"
  assume a: "(case max_pages self of None \<Rightarrow> True | Some m \<Rightarrow> page + 1 \<le> m) \<and>
    net (http_log w) (listing_request self (page * 10)) = Inr resp \<and>
    find_all ([], content resp) ''h3'' (Some error_text) = [] \<and>
    select sel_business_cards ([], content resp) = earlier @ the_card # later \<and>
    cards_loop net self earlier objects ?w1 = (Inr objects', w') \<and>
    select_one sel_name the_card = Some el \<and>
    net (http_log w') ?req = Inl e"
  then have lim: "case max_pages self of None \<Rightarrow> True | Some m \<Rightarrow> page + 1 \<le> m"
    and f: "net (http_log w) (listing_request self (page * 10)) = Inr resp"
    and h: "find_all ([], content resp) ''h3'' (Some error_text) = []"
    and c: "select sel_business_cards ([], content resp) = earlier @ the_card # later"
    and b: "cards_loop net self earlier objects ?w1 = (Inr objects', w')"
    and n: "select_one sel_name the_card = Some el"
    and d: "net (http_log w') ?req = Inl e"
    by simp_all
  note step = pages_loop_fetch
    [where self = self and page = page and net = net and w = w and objects = objects,
      OF lim f]
  from get_object_data_named [OF n, of net self w'] d
  have "get_object_data net self the_card w' = (Inl e, w'\<lparr>http_log := http_log w' @ [?req]\<rparr>)"
    by simp
  then have "cards_loop net self (the_card # later) objects' w' =
      (Inl e, w'\<lparr>http_log := http_log w' @ [?req]\<rparr>)"
    by simp
  with b have "cards_loop net self (earlier @ the_card # later) objects ?w1 =
      (Inl e, w'\<lparr>http_log := http_log w' @ [?req]\<rparr>)"
    by (simp add: cards_loop_append)
  with step h c show "pages_loop net self page objects w =
      Some (Inl e, w'\<lparr>http_log := http_log w' @ [?req]\<rparr>)"
    by simp
next
  let ?req = "\<lparr>url = ''https://www.yelp.com'' @ str_of (get_attr el ''href''), params = None\<rparr>"
  assume a: "select_one sel_name the_card = Some el \<and> net (http_log w) ?req = Inl e"
  then have n: "select_one sel_name the_card = Some el"
    and d: "net (http_log w) ?req = Inl e" by simp_all
  from get_object_data_named [OF n, of net self w] d
  show "get_object_data net self the_card w = (Inl e, w\<lparr>http_log := http_log w @ [?req]\<rparr>)"
    by simp
next
  let ?req = "\<lparr>url = ''https://www.yelp.com'' @ str_of (get_attr el ''href''), params = None\<rparr>"
  assume a: "select_one sel_name the_card = Some el \<and>
    net (http_log w) ?req = Inr dresp \<and> content dresp = document []"
  then have n: "select_one sel_name the_card = Some el"
    and d: "net (http_log w) ?req = Inr dresp" and e: "content dresp = document []"
    by simp_all
  from get_object_data_named [OF n, of net self w] d e
  show "get_object_data net self the_card w =
        (Inr \<lparr>name = sanitize_element_text (Some (snd el)) [],
              rating = sanitize_element_text (map_option snd (select_one sel_rating the_card)) [],
              reviews_count =
                sanitize_element_text (map_option snd (select_one sel_review_count the_card))
                  [''('', '')''],
              yelp_url = Some (''https://www.yelp.com'' @ str_of (get_attr el ''href'')),
              reviews = [], website = Some None\<rparr>,
         w\<lparr>http_log := http_log w @ [?req]\<rparr>)"
    by (simp add: extract_reviews_empty)
qed

text \<open>
  The cases: a network that raises on every request; one that raises on detail
  requests, for the only card of a page; one that answers the detail request of the
  first card and raises on that of the second; and, for one card, a detail request that
  raises and one that is answered with status 404 and an empty page.
\<close>

theorem transport_failure_witness:
  "pages_loop (\<lambda>log req. Inl RequestException) bakery 0 [] world0 =
     Some (Inl RequestException, \<lparr>http_log = [listing_request bakery 0], fix_html = None\<rparr>) \<and>
   pages_loop (serve 200 (document [card_named]) (Inl RequestException)) bakery 0 [] world0 =
     Some (Inl RequestException,
           \<lparr>http_log = [listing_request bakery 0,
                         \<lparr>url = ''https://www.yelp.com/biz/cafe'', params = None\<rparr>],
            fix_html = None\<rparr>) \<and>
   pages_loop (serve_first two_cards_page) bakery 0 [] world0 =
     Some (Inl RequestException,
           \<lparr>http_log = [listing_request bakery 0,
                         \<lparr>url = ''https://www.yelp.com/biz/cafe'', params = None\<rparr>,
                         \<lparr>url = ''https://www.yelp.com/biz/cafe'', params = None\<rparr>],
            fix_html = None\<rparr>) \<and>
   get_object_data (serve 200 (document []) (Inl RequestException)) bakery ([], card_named)
       world0 =
     (Inl RequestException,
      \<lparr>http_log = [\<lparr>url = ''https://www.yelp.com/biz/cafe'', params = None\<rparr>],
       fix_html = None\<rparr>) \<and>
   get_object_data (serve 404 (document []) (Inr (document []))) bakery ([], card_named) world0 =
     (Inr \<lparr>name = Some ''Cafe'', rating = None, reviews_count = None,
           yelp_url = Some ''https://www.yelp.com/biz/cafe'', reviews = [],
           website = Some None\<rparr>,
      \<lparr>http_log = [\<lparr>url = ''https://www.yelp.com/biz/cafe'', params = None\<rparr>],
       fix_html = None\<rparr>)"
proof -
  let ?cafe = "\<lparr>url = ''https://www.yelp.com/biz/cafe'', params = None\<rparr>"
  have lim: "case max_pages bakery of None \<Rightarrow> True | Some m \<Rightarrow> 0 + 1 \<le> m"
    by (simp add: bakery_def)
  \<comment> \<open>the listing request raises\<close>
  have "(case max_pages bakery of None \<Rightarrow> True | Some m \<Rightarrow> 0 + 1 \<le> m) \<and>
    (\<lambda>log req. Inl RequestException) (http_log world0) (listing_request bakery (0 * 10)) =
      (Inl RequestException :: exn + response)"
    using lim by simp
  from transport_failure
    [where net = "\<lambda>log req. Inl RequestException" and self = bakery and page = 0
      and w = world0 and e = RequestException and objects = "[]",
      THEN conjunct1, rule_format, OF this]
  have a: "pages_loop (\<lambda>log req. Inl RequestException) bakery 0 [] world0 =
     Some (Inl RequestException, \<lparr>http_log = [listing_request bakery 0], fix_html = None\<rparr>)"
    by (simp add: world0_def)
  \<comment> \<open>the detail request of the first card raises\<close>
  let ?net = "serve 200 (document [card_named]) (Inl RequestException)"
  let ?el = "([(name_box, 0), (card_named, 0), (document [card_named], 0)], name_link)
    :: element"
  let ?w1 = "world0\<lparr>http_log := http_log world0 @ [listing_request bakery (0 * 10)]\<rparr>"
  have "(case max_pages bakery of None \<Rightarrow> True | Some m \<Rightarrow> 0 + 1 \<le> m) \<and>
    ?net (http_log world0) (listing_request bakery (0 * 10)) =
      Inr \<lparr>status_code = 200, content = document [card_named]\<rparr> \<and>
    find_all ([], content \<lparr>status_code = 200, content = document [card_named]\<rparr>) ''h3''
      (Some error_text) = [] \<and>
    select sel_business_cards ([], content \<lparr>status_code = 200, content = document [card_named]\<rparr>) =
      [] @ ([(document [card_named], 0)], card_named) # [] \<and>
    cards_loop ?net bakery [] [] ?w1 = (Inr [], ?w1) \<and>
    select_one sel_name ([(document [card_named], 0)], card_named) = Some ?el \<and>
    ?net (http_log ?w1)
      \<lparr>url = ''https://www.yelp.com'' @ str_of (get_attr ?el ''href''), params = None\<rparr> =
      Inl RequestException"
    using lim named_link by (simp add: serve_def listing_request_def)
  from transport_failure
    [where net = ?net and self = bakery and page = 0 and w = world0
      and e = RequestException and objects = "[]"
      and resp = "\<lparr>status_code = 200, content = document [card_named]\<rparr>"
      and earlier = "[]" and the_card = "([(document [card_named], 0)], card_named)"
      and later = "[]" and objects' = "[]" and w' = ?w1 and el = ?el,
      THEN conjunct2, THEN conjunct1, rule_format, OF this]
  have b: "pages_loop ?net bakery 0 [] world0 =
     Some (Inl RequestException,
           \<lparr>http_log = [listing_request bakery 0, ?cafe], fix_html = None\<rparr>)"
    by (simp add: world0_def named_values)
  \<comment> \<open>the detail request of the second card raises, after the first one was answered\<close>
  let ?net2 = "serve_first two_cards_page"
  let ?el2 = "([(name_box, 0), (card_named, 0), (two_cards_page, 1)], name_link) :: element"
  let ?w2 = "\<lparr>http_log = [listing_request bakery 0, ?cafe], fix_html = None\<rparr>"
  let ?od = "\<lparr>name = Some ''Cafe'', rating = None, reviews_count = None,
            yelp_url = Some ''https://www.yelp.com/biz/cafe'', reviews = [],
            website = Some None\<rparr>"
  have "(case max_pages bakery of None \<Rightarrow> True | Some m \<Rightarrow> 0 + 1 \<le> m) \<and>
    ?net2 (http_log world0) (listing_request bakery (0 * 10)) =
      Inr \<lparr>status_code = 200, content = two_cards_page\<rparr> \<and>
    find_all ([], content \<lparr>status_code = 200, content = two_cards_page\<rparr>) ''h3''
      (Some error_text) = [] \<and>
    select sel_business_cards ([], content \<lparr>status_code = 200, content = two_cards_page\<rparr>) =
      [([(two_cards_page, 0)], card_named)] @ ([(two_cards_page, 1)], card_named) # [] \<and>
    cards_loop ?net2 bakery [([(two_cards_page, 0)], card_named)] [] ?w1 = (Inr [?od], ?w2) \<and>
    select_one sel_name ([(two_cards_page, 1)], card_named) = Some ?el2 \<and>
    ?net2 (http_log ?w2)
      \<lparr>url = ''https://www.yelp.com'' @ str_of (get_attr ?el2 ''href''), params = None\<rparr> =
      Inl RequestException"
    using lim two_cards_page_facts
    by (simp add: serve_first_def listing_request_def world0_def)
  from transport_failure
    [where net = ?net2 and self = bakery and page = 0 and w = world0
      and e = RequestException and objects = "[]"
      and resp = "\<lparr>status_code = 200, content = two_cards_page\<rparr>"
      and earlier = "[([(two_cards_page, 0)], card_named)]"
      and the_card = "([(two_cards_page, 1)], card_named)"
      and later = "[]" and objects' = "[?od]" and w' = ?w2 and el = ?el2,
      THEN conjunct2, THEN conjunct1, rule_format, OF this]
  have b2: "pages_loop ?net2 bakery 0 [] world0 =
     Some (Inl RequestException,
           \<lparr>http_log = [listing_request bakery 0, ?cafe, ?cafe], fix_html = None\<rparr>)"
    by (simp add: named_values)
  \<comment> \<open>one card: the detail request raises, or is answered with status 404\<close>
  let ?el' = "([(name_box, 0), (card_named, 0)], name_link) :: element"
  let ?net3 = "serve 200 (document []) (Inl RequestException)"
  have "select_one sel_name ([], card_named) = Some ?el' \<and>
    ?net3 (http_log world0)
      \<lparr>url = ''https://www.yelp.com'' @ str_of (get_attr ?el' ''href''), params = None\<rparr> =
      Inl RequestException"
    using named_link by (simp add: serve_def)
  from transport_failure
    [where net = ?net3 and self = bakery and w = world0 and e = RequestException
      and the_card = "([], card_named)" and el = ?el',
      THEN conjunct2, THEN conjunct2, THEN conjunct1, rule_format, OF this]
  have c: "get_object_data ?net3 bakery ([], card_named) world0 =
     (Inl RequestException, \<lparr>http_log = [?cafe], fix_html = None\<rparr>)"
    by (simp add: world0_def named_values)
  let ?net4 = "serve 404 (document []) (Inr (document []))"
  have "select_one sel_name ([], card_named) = Some ?el' \<and>
    ?net4 (http_log world0)
      \<lparr>url = ''https://www.yelp.com'' @ str_of (get_attr ?el' ''href''), params = None\<rparr> =
      Inr \<lparr>status_code = 404, content = document []\<rparr> \<and>
    content \<lparr>status_code = 404, content = document []\<rparr> = document []"
    using named_link by (simp add: serve_def)
  from transport_failure
    [where net = ?net4 and self = bakery and w = world0
      and the_card = "([], card_named)" and el = ?el'
      and dresp = "\<lparr>status_code = 404, content = document []\<rparr>",
      THEN conjunct2, THEN conjunct2, THEN conjunct2, rule_format, OF this]
  have d: "get_object_data ?net4 bakery ([], card_named) world0 =
     (Inr ?od, \<lparr>http_log = [?cafe], fix_html = None\<rparr>)"
    by (simp add: world0_def named_values)
  from a b b2 c d show ?thesis by (intro conjI)
qed

text \<open>
  C3 as stated fails: the detail request of the only card raises, and \<open>run\<close> ends with
  the exception instead of a list of records.
\<close>

theorem network_error_aborts_run:
  "run (serve 200 (document [card_named]) (Inl RequestException)) (init ''Bakery'' ''Austin'')
       world0 =
     Some (Inl RequestException,
           (init ''Bakery'' ''Austin'')
             \<lparr>search := ''https://www.yelp.com/search?find_desc=Bakery&find_loc=Austin''\<rparr>,
           \<lparr>http_log =
              [\<lparr>url = ''https://www.yelp.com/search?find_desc=Bakery&find_loc=Austin'',
                params = Some [(''start'', 0)]\<rparr>,
               \<lparr>url = ''https://www.yelp.com/biz/cafe'', params = None\<rparr>],
            fix_html = None\<rparr>)"
  by code_simp

end
